theory Spec2Isabelle
  imports Main
begin

section \<open>Errors\<close>

text \<open>
  Every error return of the Go sources is a value. Errors produced inside a library
  (the mail parser, the JSON codec, the operating system, the Graph SDK) are opaque
  and carry a label only.
\<close>

datatype error =
    LibError string
  | ErrNotExist
  | ErrPermission
  | TokenExpired
  | UnsupportedAuthMechanism
  | InvalidCredentials
  | MessageParseError error
  | NoRecipients
  | SendFailed error
  | NoBodyFound

section \<open>Token cache (internal/auth/token.go)\<close>

subsection \<open>Time\<close>

text \<open>
  A \<open>time.Time\<close> is the number of nanoseconds since Go's zero time (January 1 of
  year 1, 00:00:00 UTC), so \<open>IsZero\<close> is equality with 0. A \<open>time.Duration\<close> is an
  \<open>int64\<close> count of nanoseconds: a product of durations wraps around modulo \<open>2^64\<close>.
  \<open>Time.Add\<close> is exact here: the instants a clock can deliver are far away from
  the ends of Go's representable range.
\<close>

type_synonym Time = int
type_synonym Duration = int

definition wrap64 :: "int \<Rightarrow> int" where
  "wrap64 x = (x + 2 ^ 63) mod 2 ^ 64 - 2 ^ 63"

definition Second :: Duration where
  "Second = 1000000000"

definition Duration_mul :: "Duration \<Rightarrow> Duration \<Rightarrow> Duration" where
  "Duration_mul a b = wrap64 (a * b)"

definition Time_IsZero :: "Time \<Rightarrow> bool" where
  "Time_IsZero t = (t = 0)"

definition Time_Add :: "Time \<Rightarrow> Duration \<Rightarrow> Time" where
  "Time_Add t d = t + d"

definition Time_After :: "Time \<Rightarrow> Time \<Rightarrow> bool" where
  "Time_After t u = (u < t)"

subsection \<open>TokenResponse and IsExpired\<close>

record TokenResponse =
  AccessToken :: string
  TokenType :: string
  ExpiresIn :: int
  RefreshToken :: string
  Scope :: string
  CachedAt :: Time

definition tokenBufferSecs :: int where
  "tokenBufferSecs = 300"

text \<open>\<open>IsExpired\<close>; the reading of \<open>time.Now()\<close> is the argument \<open>now\<close>.\<close>

definition IsExpired :: "Time \<Rightarrow> TokenResponse \<Rightarrow> bool" where
  "IsExpired now tr =
     (if Time_IsZero (CachedAt tr) then True
      else
        (let expirationTime = Time_Add (CachedAt tr) (Duration_mul (ExpiresIn tr) Second)
         in Time_After (Time_Add now (Duration_mul tokenBufferSecs Second)) expirationTime))"

subsection \<open>The cache file\<close>

text \<open>
  The file system holds the bytes stored under each path; a path may be unwritable
  (\<open>os.WriteFile\<close> fails there). \<open>json.MarshalIndent\<close> and \<open>json.Unmarshal\<close> belong to
  Go's library and are parameters of the cache operations.
\<close>

record FileSystem =
  files :: "string \<rightharpoonup> string"
  unwritable :: "string \<Rightarrow> bool"

definition os_ReadFile :: "FileSystem \<Rightarrow> string \<Rightarrow> error + string" where
  "os_ReadFile fs p = (case files fs p of None \<Rightarrow> Inl ErrNotExist | Some d \<Rightarrow> Inr d)"

definition os_WriteFile :: "FileSystem \<Rightarrow> string \<Rightarrow> string \<Rightarrow> error + FileSystem" where
  "os_WriteFile fs p d =
     (if unwritable fs p then Inl ErrPermission
      else Inr (fs\<lparr>files := (files fs)(p \<mapsto> d)\<rparr>))"

record JSONCodec =
  Marshal :: "TokenResponse \<Rightarrow> error + string"
  Unmarshal :: "string \<Rightarrow> error + TokenResponse"

text \<open>
  \<open>LoadToken\<close>: read the file, parse it, refuse an expired record.
\<close>

definition LoadToken ::
  "JSONCodec \<Rightarrow> FileSystem \<Rightarrow> string \<Rightarrow> Time \<Rightarrow> error + TokenResponse" where
  "LoadToken J fs filePath now =
     (case os_ReadFile fs filePath of
        Inl e \<Rightarrow> Inl e
      | Inr d \<Rightarrow>
          (case Unmarshal J d of
             Inl e \<Rightarrow> Inl e
           | Inr token \<Rightarrow> if IsExpired now token then Inl TokenExpired else Inr token))"

text \<open>
  \<open>SaveToken\<close> stamps \<open>CachedAt\<close> on the caller's record (it is passed by pointer),
  serialises it and writes the file. The result is the error, if any, the file
  system afterwards and the caller's record afterwards.
\<close>

definition SaveToken ::
  "JSONCodec \<Rightarrow> FileSystem \<Rightarrow> string \<Rightarrow> Time \<Rightarrow> TokenResponse
     \<Rightarrow> error option \<times> FileSystem \<times> TokenResponse" where
  "SaveToken J fs filePath now token0 =
     (let token = token0\<lparr>CachedAt := now\<rparr> in
      case Marshal J token of
        Inl e \<Rightarrow> (Some e, fs, token)
      | Inr d \<Rightarrow>
          (case os_WriteFile fs filePath d of
             Inl e \<Rightarrow> (Some e, fs, token)
           | Inr fs' \<Rightarrow> (None, fs', token)))"

section \<open>String helpers of Go's \<open>strings\<close> package\<close>

text \<open>
  A Go string is a sequence of bytes; so is an Isabelle \<open>string\<close>. The helpers below
  are the functions of package \<open>strings\<close> that the handler calls, on bytes.
\<close>

definition HasPrefix :: "string \<Rightarrow> string \<Rightarrow> bool" where
  "HasPrefix s p = (take (length p) s = p)"

definition HasSuffix :: "string \<Rightarrow> string \<Rightarrow> bool" where
  "HasSuffix s suf = (length suf \<le> length s \<and> drop (length s - length suf) s = suf)"

definition TrimSuffix :: "string \<Rightarrow> string \<Rightarrow> string" where
  "TrimSuffix s suf = (if HasSuffix s suf then take (length s - length suf) s else s)"

definition TrimRight :: "string \<Rightarrow> string \<Rightarrow> string" where
  "TrimRight s cutset = rev (dropWhile (\<lambda>c. c \<in> set cutset) (rev s))"

section \<open>Quoted-printable decoding (internal/smtp/handler.go)\<close>

text \<open>
  \<open>bufio.Reader.ReadString\<close> on the rest of the input: the bytes up to and including
  the first delimiter, or everything that is left together with \<open>io.EOF\<close>. The result
  is the line, whether \<open>io.EOF\<close> was returned, and the input that remains. A reader
  over a string returns no other error, so the loop's first \<open>break\<close> is never taken.
\<close>

definition ReadString :: "string \<Rightarrow> char \<Rightarrow> string \<times> bool \<times> string" where
  "ReadString s delim =
     (case dropWhile (\<lambda>c. c \<noteq> delim) s of
        [] \<Rightarrow> (s, True, [])
      | d # rest \<Rightarrow> (takeWhile (\<lambda>c. c \<noteq> delim) s @ [d], False, rest))"

text \<open>
  \<open>fmt.Sscanf(line[i+1:i+3], "%02X", &b)\<close> on the two bytes \<open>x\<close>, \<open>y\<close>, with \<open>b\<close>
  zero before the call; the error is discarded. The scanner skips leading white space
  other than a newline, then reads at most two hexadecimal digits (either case) and
  stops at the first byte that is not one. Where no digit is read the scan fails and
  \<open>b\<close> keeps its zero.
\<close>

definition isHexDigit :: "char \<Rightarrow> bool" where
  "isHexDigit c = (c \<in> set ''0123456789aAbBcCdDeEfF'')"

definition hexVal :: "char \<Rightarrow> nat" where
  "hexVal c =
     (let n = (of_char c :: nat) in
      if 48 \<le> n \<and> n \<le> 57 then n - 48
      else if 97 \<le> n \<and> n \<le> 102 then n - 87
      else n - 55)"

definition isSkippedSpace :: "char \<Rightarrow> bool" where
  "isSkippedSpace c = (c \<in> set [CHR 0x09, CHR 0x0B, CHR 0x0C, CHR 0x0D, CHR 0x20])"

definition Sscanf_02X :: "char \<Rightarrow> char \<Rightarrow> char" where
  "Sscanf_02X x y =
     (if isHexDigit x then
        (if isHexDigit y then char_of (16 * hexVal x + hexVal y) else char_of (hexVal x))
      else if isSkippedSpace x \<and> isHexDigit y then char_of (hexVal y)
      else CHR 0x00)"

text \<open>
  The inner loop over one line, on the part of the line from index \<open>i\<close> on:
  \<open>i+2 < len(line)\<close> holds exactly when two more bytes follow the byte at \<open>i\<close>.
\<close>

fun decodeEscapes :: "string \<Rightarrow> string" where
  "decodeEscapes (c # x # y # rest) =
     (if c = CHR ''='' then Sscanf_02X x y # decodeEscapes rest
      else c # decodeEscapes (x # y # rest))"
| "decodeEscapes (c # rest) = c # decodeEscapes rest"
| "decodeEscapes [] = []"

text \<open>
  What the loop does to a line before decoding its escapes: trailing carriage returns
  and newlines go; a trailing \<open>=\<close> goes without a newline taking its place,
  otherwise a newline is appended.
\<close>

definition softBreak :: "string \<Rightarrow> string" where
  "softBreak line0 =
     (let line = TrimRight line0 [CHR 0x0D, CHR 0x0A]
      in if HasSuffix line ''='' then TrimSuffix line ''='' else line @ [CHR 0x0A])"

text \<open>
  \<open>decodeQuotedPrintable\<close>: the outer loop. The buffer's content at the end is the
  decoded lines one after the other.
\<close>

function decodeQuotedPrintable :: "string \<Rightarrow> string" where
  "decodeQuotedPrintable s =
     (case ReadString s (CHR 0x0A) of
        (line, eof, rest) \<Rightarrow>
          decodeEscapes (softBreak line) @ (if eof then [] else decodeQuotedPrintable rest))"
  by pat_completeness auto
termination
proof (relation "measure length")
  show "wf (measure length)" by simp
next
  fix s line and eof :: bool and rest y
  assume a: "(line, y) = ReadString s (CHR 0x0A)" "(eof, rest) = y" "\<not> eof"
  have "length (dropWhile (\<lambda>c. c \<noteq> CHR 0x0A) s) \<le> length s"
    by (rule length_dropWhile_le)
  with a show "(rest, s) \<in> measure length"
    by (auto simp: ReadString_def split: list.splits)
qed

declare decodeQuotedPrintable.simps [simp del]

section \<open>MIME extraction (internal/smtp/handler.go)\<close>

text \<open>
  The functions of \<open>net/mail\<close>, \<open>mime\<close>, \<open>mime/multipart\<close>, \<open>encoding/base64\<close> and
  \<open>strings.EqualFold\<close> are Go's, not the repository's: they are parameters of the
  model. A header is its \<open>Get\<close> function (the empty string for an absent field); a
  body is what \<open>io.ReadAll\<close> returns on it. \<open>MultipartParts\<close> is the sequence of
  results of \<open>NextPart\<close> on \<open>multipart.NewReader(body, boundary)\<close> before \<open>io.EOF\<close>.
\<close>

record mail_Address =
  Name :: string
  Address :: string

record Message =
  Header :: "string \<Rightarrow> string"
  Body :: "error + string"

record Part =
  PartHeader :: "string \<Rightarrow> string"
  PartBytes :: "error + string"

datatype NextPartResult = NextPartError error | NextPart Part

record MailLib =
  ReadMessage :: "string \<Rightarrow> error + Message"
  ParseAddressList :: "string \<Rightarrow> error + mail_Address list"
  DecodeHeader :: "string \<Rightarrow> error + string"
  ParseMediaType :: "string \<Rightarrow> string \<times> (string \<Rightarrow> string) \<times> error option"
  MultipartParts :: "error + string \<Rightarrow> string \<Rightarrow> NextPartResult list"
  Base64Decode :: "string \<Rightarrow> error + string"
  EqualFold :: "string \<Rightarrow> string \<Rightarrow> bool"

definition decodeHeader :: "MailLib \<Rightarrow> string \<Rightarrow> string" where
  "decodeHeader L header =
     (case DecodeHeader L header of Inl e \<Rightarrow> header | Inr decoded \<Rightarrow> decoded)"

text \<open>
  The Content-Transfer-Encoding step, written out twice in the source (for a single
  part and for each part of a multipart body).
\<close>

definition decodeTransferEncoding :: "MailLib \<Rightarrow> string \<Rightarrow> string \<Rightarrow> string" where
  "decodeTransferEncoding L encoding bodyText =
     (if EqualFold L encoding ''base64'' then
        (case Base64Decode L bodyText of Inl e \<Rightarrow> bodyText | Inr decoded \<Rightarrow> decoded)
      else if EqualFold L encoding ''quoted-printable'' then decodeQuotedPrintable bodyText
      else bodyText)"

text \<open>
  The loop of \<open>extractMultipartBody\<close> over the parts still to come, with the two
  variables \<open>textPart\<close> and \<open>htmlPart\<close>; its end is the code after the loop.
\<close>

fun extractParts ::
  "MailLib \<Rightarrow> NextPartResult list \<Rightarrow> string \<Rightarrow> string \<Rightarrow> error + (string \<times> bool)" where
  "extractParts L [] textPart htmlPart =
     (if htmlPart \<noteq> [] then Inr (htmlPart, True)
      else if textPart \<noteq> [] then Inr (textPart, False)
      else Inl NoBodyFound)"
| "extractParts L (NextPartError e # ps) textPart htmlPart = Inl e"
| "extractParts L (NextPart p # ps) textPart htmlPart =
     (let contentType = PartHeader p ''Content-Type'';
          mediaType = fst (ParseMediaType L contentType)
      in case PartBytes p of
           Inl e \<Rightarrow> extractParts L ps textPart htmlPart
         | Inr partBytes \<Rightarrow>
             (let encoding = PartHeader p ''Content-Transfer-Encoding'';
                  partText = decodeTransferEncoding L encoding partBytes
              in if HasPrefix mediaType ''text/plain'' then extractParts L ps partText htmlPart
                 else if HasPrefix mediaType ''text/html'' then extractParts L ps textPart partText
                 else if HasPrefix mediaType ''multipart/'' then extractParts L ps textPart htmlPart
                 else extractParts L ps textPart htmlPart))"

definition extractMultipartBody ::
  "MailLib \<Rightarrow> error + string \<Rightarrow> string \<Rightarrow> error + (string \<times> bool)" where
  "extractMultipartBody L body boundary = extractParts L (MultipartParts L body boundary) [] []"

definition extractBody :: "MailLib \<Rightarrow> Message \<Rightarrow> error + (string \<times> bool)" where
  "extractBody L msg =
     (case ParseMediaType L (Header msg ''Content-Type'') of
        (mediaType, params, Some e) \<Rightarrow>
          (case Body msg of Inl e' \<Rightarrow> Inl e' | Inr bodyBytes \<Rightarrow> Inr (bodyBytes, False))
      | (mediaType, params, None) \<Rightarrow>
          if HasPrefix mediaType ''multipart/''
          then extractMultipartBody L (Body msg) (params ''boundary'')
          else
            (case Body msg of
               Inl e' \<Rightarrow> Inl e'
             | Inr bodyBytes \<Rightarrow>
                 (let encoding = Header msg ''Content-Transfer-Encoding'';
                      bodyText = decodeTransferEncoding L encoding bodyBytes;
                      isHTML = HasPrefix mediaType ''text/html''
                  in Inr (bodyText, isHTML))))"

section \<open>The SMTP session (internal/smtp/handler.go)\<close>

record Backend =
  username :: string
  password :: string

record Session =
  backend :: Backend
  from' :: string
  to' :: "string list"
  authenticated :: bool

definition NewSession :: "Backend \<Rightarrow> Session" where
  "NewSession b = \<lparr>backend = b, from' = [], to' = [], authenticated = False\<rparr>"

definition Reset :: "Session \<Rightarrow> Session" where
  "Reset s = s\<lparr>from' := [], to' := []\<rparr>"

definition Logout :: "Session \<Rightarrow> error option" where
  "Logout s = None"

text \<open>
  \<open>Auth\<close> returns the PLAIN server's callback, which checks the credentials against
  the backend's and sets the flag of the session it was made for.
\<close>

definition plainCallback ::
  "Session \<Rightarrow> string \<Rightarrow> string \<Rightarrow> string \<Rightarrow> error option \<times> Session" where
  "plainCallback s identity user pass =
     (if user \<noteq> username (backend s) \<or> pass \<noteq> password (backend s)
      then (Some InvalidCredentials, s)
      else (None, s\<lparr>authenticated := True\<rparr>))"

definition Auth ::
  "Session \<Rightarrow> string \<Rightarrow> error + (string \<Rightarrow> string \<Rightarrow> string \<Rightarrow> error option \<times> Session)" where
  "Auth s mech =
     (if mech \<noteq> ''PLAIN'' then Inl UnsupportedAuthMechanism else Inr (plainCallback s))"

definition Mail :: "Session \<Rightarrow> string \<Rightarrow> error option \<times> Session" where
  "Mail s a = (None, s\<lparr>from' := a\<rparr>)"

definition Rcpt :: "Session \<Rightarrow> string \<Rightarrow> error option \<times> Session" where
  "Rcpt s a = (None, s\<lparr>to' := to' s @ [a]\<rparr>)"

text \<open>
  The Graph client is outside the session: a call to it is recorded, and its answer
  is a parameter.
\<close>

datatype MailSenderCall =
    SendMail string string string bool
  | SendMailWithMultipleRecipients "string list" "string list" string string bool

definition placeholderBody :: string where
  "placeholderBody =
     [CHR 0xEF, CHR 0xBC, CHR 0x88, CHR 0xE6, CHR 0x9C, CHR 0xAC, CHR 0xE6, CHR 0x96,
      CHR 0x87, CHR 0xE3, CHR 0x82, CHR 0x92, CHR 0xE6, CHR 0x8A, CHR 0xBD, CHR 0xE5,
      CHR 0x87, CHR 0xBA, CHR 0xE3, CHR 0x81, CHR 0xA7, CHR 0xE3, CHR 0x81, CHR 0x8D,
      CHR 0xE3, CHR 0x81, CHR 0xBE, CHR 0xE3, CHR 0x81, CHR 0x9B, CHR 0xE3, CHR 0x82,
      CHR 0x93, CHR 0xE3, CHR 0x81, CHR 0xA7, CHR 0xE3, CHR 0x81, CHR 0x97, CHR 0xE3,
      CHR 0x81, CHR 0x9F, CHR 0xEF, CHR 0xBC, CHR 0x89]"

definition ccAddressesOf :: "MailLib \<Rightarrow> Message \<Rightarrow> string list" where
  "ccAddressesOf L msg =
     (let ccHeader = Header msg ''Cc'' in
      if ccHeader \<noteq> [] then
        (case ParseAddressList L ccHeader of
           Inl e \<Rightarrow> []
         | Inr ccList \<Rightarrow> map Address ccList)
      else [])"

definition bodyOrPlaceholder :: "MailLib \<Rightarrow> Message \<Rightarrow> string \<times> bool" where
  "bodyOrPlaceholder L msg =
     (case extractBody L msg of
        Inl e \<Rightarrow> (placeholderBody, False)
      | Inr (body, isHTML) \<Rightarrow> (body, isHTML))"

definition sendResult :: "error option \<Rightarrow> error option" where
  "sendResult r = (case r of Some e \<Rightarrow> Some (SendFailed e) | None \<Rightarrow> None)"

text \<open>
  \<open>Data\<close>: the error it returns, if any, and the calls it made to the Graph client
  (none or one). The session itself is not changed.
\<close>

definition Data ::
  "MailLib \<Rightarrow> (MailSenderCall \<Rightarrow> error option) \<Rightarrow> Session \<Rightarrow> string
     \<Rightarrow> error option \<times> MailSenderCall list" where
  "Data L graphClient s r =
     (case ReadMessage L r of
        Inl e \<Rightarrow> (Some (MessageParseError e), [])
      | Inr msg \<Rightarrow>
          (let subject = decodeHeader L (Header msg ''Subject'');
               ccAddresses = ccAddressesOf L msg;
               (body, isHTML) = bodyOrPlaceholder L msg
           in if length ccAddresses > 0 then
                (let c = SendMailWithMultipleRecipients (to' s) ccAddresses subject body isHTML
                 in (sendResult (graphClient c), [c]))
              else
                (case to' s of
                   [] \<Rightarrow> (Some NoRecipients, [])
                 | t0 # ts \<Rightarrow>
                     (let c = SendMail t0 subject body isHTML
                      in (sendResult (graphClient c), [c])))))"

section \<open>PKCE (internal/auth)\<close>

text \<open>
  \<open>base64.RawURLEncoding.EncodeToString\<close>: three bytes give four characters of the
  URL-safe alphabet; one or two bytes left over give two or three, and no padding
  follows.
\<close>

definition encodeURL :: string where
  "encodeURL = ''ABCDEFGHIJKLMNOPQRSTUVWXYZabcdefghijklmnopqrstuvwxyz0123456789-_''"

definition enc64 :: "nat \<Rightarrow> char" where
  "enc64 v = encodeURL ! (v mod 64)"

fun RawURLEncoding_EncodeToString :: "string \<Rightarrow> string" where
  "RawURLEncoding_EncodeToString (a # b # c # src) =
     (let val = (of_char a :: nat) * 65536 + of_char b * 256 + of_char c
      in enc64 (val div 262144) # enc64 (val div 4096) # enc64 (val div 64) # enc64 val
           # RawURLEncoding_EncodeToString src)"
| "RawURLEncoding_EncodeToString [a, b] =
     (let val = (of_char a :: nat) * 65536 + of_char b * 256
      in [enc64 (val div 262144), enc64 (val div 4096), enc64 (val div 64)])"
| "RawURLEncoding_EncodeToString [a] =
     (let val = (of_char a :: nat) * 65536
      in [enc64 (val div 262144), enc64 (val div 4096)])"
| "RawURLEncoding_EncodeToString [] = []"

text \<open>
  \<open>rand.Read(b)\<close> overwrites \<open>b\<close> with the bytes the random source delivers; its error
  is ignored, so bytes the source does not deliver stay as they were.
\<close>

definition rand_Read :: "string \<Rightarrow> string \<Rightarrow> string" where
  "rand_Read source b = take (length b) (source @ drop (length source) b)"

record Authenticator =
  clientID :: string
  redirectURI :: string
  authorityURL :: string
  codeVerifier :: string
  codeChallenge :: string

text \<open>
  \<open>generatePKCE\<close>; SHA-256 (\<open>sha256.New\<close>, \<open>Write\<close>, \<open>Sum(nil)\<close>) is the parameter
  \<open>sha256_Sum\<close>.
\<close>

definition generatePKCE ::
  "(string \<Rightarrow> string) \<Rightarrow> string \<Rightarrow> Authenticator \<Rightarrow> Authenticator" where
  "generatePKCE sha256_Sum source a =
     (let b = rand_Read source (replicate 32 (CHR 0x00));
          a1 = a\<lparr>codeVerifier := RawURLEncoding_EncodeToString b\<rparr>;
          h = sha256_Sum (codeVerifier a1)
      in a1\<lparr>codeChallenge := RawURLEncoding_EncodeToString h\<rparr>)"

section \<open>Notions used in the statements\<close>

text \<open>
  The media type and the decoded text of a part, as the loop of
  \<open>extractMultipartBody\<close> computes them, and the decoded texts of the readable parts
  whose media type begins with a given kind, in the order of the parts.
\<close>

definition partMediaType :: "MailLib \<Rightarrow> Part \<Rightarrow> string" where
  "partMediaType L p = fst (ParseMediaType L (PartHeader p ''Content-Type''))"

definition partText :: "MailLib \<Rightarrow> Part \<Rightarrow> string \<Rightarrow> string" where
  "partText L p partBytes =
     decodeTransferEncoding L (PartHeader p ''Content-Transfer-Encoding'') partBytes"

fun textsOfKind :: "MailLib \<Rightarrow> string \<Rightarrow> NextPartResult list \<Rightarrow> string list" where
  "textsOfKind L kind [] = []"
| "textsOfKind L kind (NextPartError e # ps) = textsOfKind L kind ps"
| "textsOfKind L kind (NextPart p # ps) =
     (case PartBytes p of
        Inl e \<Rightarrow> textsOfKind L kind ps
      | Inr partBytes \<Rightarrow>
          if HasPrefix (partMediaType L p) kind
          then partText L p partBytes # textsOfKind L kind ps
          else textsOfKind L kind ps)"

text \<open>The text the loop holds for a kind at its end: the last one, or none.\<close>

definition retained :: "string list \<Rightarrow> string" where
  "retained xs = (if xs = [] then [] else last xs)"

fun isPart :: "NextPartResult \<Rightarrow> bool" where
  "isPart (NextPart p) = True"
| "isPart (NextPartError e) = False"

fun notOfKind :: "MailLib \<Rightarrow> string \<Rightarrow> NextPartResult \<Rightarrow> bool" where
  "notOfKind L kind (NextPart p) = (\<not> HasPrefix (partMediaType L p) kind)"
| "notOfKind L kind (NextPartError e) = True"

text \<open>
  The quoted-printable decoding as the specification words it, to compare the
  decoder with. The lines of the input end at a newline, and what follows the last
  newline (empty or not) is the last line. Of a line the trailing carriage returns
  and newlines do not count; a line is soft when what is left ends in \<open>=\<close>, and its
  content is what is left, without that \<open>=\<close> when the line is soft. In a content,
  \<open>=\<close> and two hexadecimal digits stand for the byte with that value and every other
  byte for itself. A content is well formed when each \<open>=\<close> in it is followed by two
  hexadecimal digits. A line decodes to its decoded content, followed by a newline
  unless the line is soft.
\<close>

fun qpLines :: "string \<Rightarrow> string list" where
  "qpLines [] = [[]]"
| "qpLines (c # cs) =
     (if c = CHR 0x0A then [] # qpLines cs
      else (case qpLines cs of [] \<Rightarrow> [[c]] | l # ls \<Rightarrow> (c # l) # ls))"

definition qpStripCRLF :: "string \<Rightarrow> string" where
  "qpStripCRLF l =
     foldr (\<lambda>c acc. if acc = [] \<and> (c = CHR 0x0D \<or> c = CHR 0x0A) then [] else c # acc) l []"

definition qpSoft :: "string \<Rightarrow> bool" where
  "qpSoft l = (qpStripCRLF l \<noteq> [] \<and> last (qpStripCRLF l) = CHR ''='')"

definition qpContent :: "string \<Rightarrow> string" where
  "qpContent l = (if qpSoft l then butlast (qpStripCRLF l) else qpStripCRLF l)"

definition qpHexValue :: "char \<Rightarrow> nat option" where
  "qpHexValue c =
     map_of
       [(CHR ''0'', 0), (CHR ''1'', 1), (CHR ''2'', 2), (CHR ''3'', 3), (CHR ''4'', 4),
        (CHR ''5'', 5), (CHR ''6'', 6), (CHR ''7'', 7), (CHR ''8'', 8), (CHR ''9'', 9),
        (CHR ''A'', 10), (CHR ''B'', 11), (CHR ''C'', 12), (CHR ''D'', 13), (CHR ''E'', 14),
        (CHR ''F'', 15), (CHR ''a'', 10), (CHR ''b'', 11), (CHR ''c'', 12), (CHR ''d'', 13),
        (CHR ''e'', 14), (CHR ''f'', 15)] c"

fun qpEscapes :: "string \<Rightarrow> string" where
  "qpEscapes (c # x # y # rest) =
     (if c = CHR ''='' \<and> qpHexValue x \<noteq> None \<and> qpHexValue y \<noteq> None
      then char_of (16 * the (qpHexValue x) + the (qpHexValue y)) # qpEscapes rest
      else c # qpEscapes (x # y # rest))"
| "qpEscapes (c # rest) = c # qpEscapes rest"
| "qpEscapes [] = []"

fun qpWellFormedLine :: "string \<Rightarrow> bool" where
  "qpWellFormedLine (c # x # y # rest) =
     (if c = CHR ''='' then qpHexValue x \<noteq> None \<and> qpHexValue y \<noteq> None \<and> qpWellFormedLine rest
      else qpWellFormedLine (x # y # rest))"
| "qpWellFormedLine (c # rest) = (c \<noteq> CHR ''='' \<and> qpWellFormedLine rest)"
| "qpWellFormedLine [] = True"

definition qpSpecLine :: "string \<Rightarrow> string" where
  "qpSpecLine l = qpEscapes (qpContent l) @ (if qpSoft l then [] else [CHR 0x0A])"

definition qpSpecDecode :: "string \<Rightarrow> string" where
  "qpSpecDecode s = concat (map qpSpecLine (qpLines s))"

definition qpWellFormed :: "string \<Rightarrow> bool" where
  "qpWellFormed s = list_all (\<lambda>l. qpWellFormedLine (qpContent l)) (qpLines s)"

section \<open>Inputs of the examples\<close>

text \<open>
  The examples run on messages whose header fields are plain ASCII: a media type
  written in lower case without parameters is returned as it stands and an absent
  one is an error, a \<open>Cc\<close> field holds one bare address, a header word decodes to
  itself, and no part carries a transfer encoding, so that the base64 decoder is
  not reached. On such input \<open>exampleLib\<close> answers as Go's library does; the
  message that \<open>ReadMessage\<close> yields and the parts of its body are given.
\<close>

definition exampleHeader :: "(string \<times> string) list \<Rightarrow> string \<Rightarrow> string" where
  "exampleHeader kvs k = (case map_of kvs k of None \<Rightarrow> [] | Some v \<Rightarrow> v)"

definition exampleLib :: "Message \<Rightarrow> NextPartResult list \<Rightarrow> MailLib" where
  "exampleLib msg parts =
     \<lparr>ReadMessage = (\<lambda>r. Inr msg),
      ParseAddressList = (\<lambda>h. Inr [\<lparr>Name = [], Address = h\<rparr>]),
      DecodeHeader = (\<lambda>h. Inr h),
      ParseMediaType =
        (\<lambda>v. (v, (\<lambda>k. []), if v = [] then Some (LibError ''mime: no media type'') else None)),
      MultipartParts = (\<lambda>body boundary. parts),
      Base64Decode = (\<lambda>t. Inl (LibError ''illegal base64 data'')),
      EqualFold = (\<lambda>a b. a = b)\<rparr>"

definition examplePart :: "string \<Rightarrow> string \<Rightarrow> NextPartResult" where
  "examplePart contentType content =
     NextPart \<lparr>PartHeader = exampleHeader [(''Content-Type'', contentType)],
               PartBytes = Inr content\<rparr>"

definition exampleMessage :: "(string \<times> string) list \<Rightarrow> string \<Rightarrow> Message" where
  "exampleMessage kvs content = \<lparr>Header = exampleHeader kvs, Body = Inr content\<rparr>"

definition exampleBackend :: Backend where
  "exampleBackend = \<lparr>username = ''u'', password = ''p''\<rparr>"

text \<open>A session after \<open>MAIL\<close> and two \<open>RCPT\<close> commands.\<close>

definition exampleSession :: Session where
  "exampleSession =
     snd (Rcpt (snd (Rcpt (snd (Mail (NewSession exampleBackend) ''me@example.com''))
       ''a@example.com'')) ''b@example.com'')"

definition exampleToken :: TokenResponse where
  "exampleToken =
     \<lparr>AccessToken = ''at'', TokenType = ''Bearer'', ExpiresIn = 3600,
      RefreshToken = ''rt'', Scope = ''Mail.Send'', CachedAt = 0\<rparr>"

text \<open>
  A codec for the records that differ from \<open>exampleToken\<close> in the access token
  only and carry the time stamp 1000: the file holds the access token.
\<close>

definition exampleCodec :: JSONCodec where
  "exampleCodec =
     \<lparr>Marshal = (\<lambda>t. Inr (AccessToken t)),
      Unmarshal = (\<lambda>d. Inr (exampleToken\<lparr>AccessToken := d, CachedAt := 1000\<rparr>))\<rparr>"

definition exampleFS :: FileSystem where
  "exampleFS = \<lparr>files = Map.empty, unwritable = (\<lambda>p. False)\<rparr>"

definition exampleAuthenticator :: Authenticator where
  "exampleAuthenticator =
     \<lparr>clientID = ''client'', redirectURI = ''http://localhost:5225/callback'',
      authorityURL = ''https://login.example.com/tenant'', codeVerifier = [], codeChallenge = []\<rparr>"

section \<open>Properties of the token cache\<close>

lemma wrap64_id: "- (2 ^ 63) \<le> x \<Longrightarrow> x < 2 ^ 63 \<Longrightarrow> wrap64 x = x"
  by (simp add: wrap64_def)

lemma buffer_duration: "Duration_mul tokenBufferSecs Second = 300000000000"
  by (simp add: Duration_mul_def tokenBufferSecs_def Second_def wrap64_def)

lemma IsExpired_unfold:
  "IsExpired now tr =
     (CachedAt tr = 0 \<or>
      CachedAt tr + wrap64 (ExpiresIn tr * 1000000000) < now + 300000000000)"
  by (simp add: IsExpired_def Time_IsZero_def Time_Add_def Time_After_def Let_def
      buffer_duration) (simp add: Duration_mul_def Second_def)

text \<open>
  C3, as stated, fails on the boundary: a record cached at second 1000 with
  \<open>expires_in = 3600\<close> is read at second 4300, where \<open>now + 300 s\<close> equals
  \<open>cachedAt + expiresIn\<close>. The claim calls it expired; \<open>Time.After\<close> is strict and
  \<open>IsExpired\<close> answers false. It also fails where the duration overflows: with
  \<open>expires_in = 9223372037\<close> the product with \<open>time.Second\<close> wraps around to a
  negative duration, and a record cached a thousand seconds ago is expired.
\<close>

theorem IsExpired_boundary_counterexample:
  "\<not> IsExpired 4300000000000
       \<lparr>AccessToken = ''a'', TokenType = ''Bearer'', ExpiresIn = 3600,
        RefreshToken = ''r'', Scope = ''s'', CachedAt = 1000000000000\<rparr>
   \<and> (1000000000000::int) + 3600 * 1000000000 \<le> 4300000000000 + 300 * 1000000000
   \<and> IsExpired 2000000000000
       \<lparr>AccessToken = ''a'', TokenType = ''Bearer'', ExpiresIn = 9223372037,
        RefreshToken = ''r'', Scope = ''s'', CachedAt = 1000000000000\<rparr>
   \<and> \<not> (1000000000000::int) + 9223372037 * 1000000000 \<le> 2000000000000 + 300 * 1000000000"
  by (simp add: IsExpired_unfold wrap64_def)

text \<open>
  C3, amended: \<open>IsExpired\<close> is true exactly when \<open>cachedAt\<close> is zero or
  \<open>now + 300 s\<close> is strictly later than \<open>cachedAt + expiresIn s\<close> (for an
  \<open>expires_in\<close> whose nanosecond count fits a 64-bit duration); it is true whenever
  \<open>cachedAt\<close> is zero; and with \<open>expires_in = 3600\<close> a record cached 3000 seconds
  ago is not expired while one cached 3400 seconds ago is.
\<close>

theorem IsExpired_strict:
  "(- (2 ^ 63) \<le> ExpiresIn tr * 1000000000 \<and> ExpiresIn tr * 1000000000 < 2 ^ 63 \<longrightarrow>
      IsExpired now tr =
        (CachedAt tr = 0 \<or>
         CachedAt tr + ExpiresIn tr * 1000000000 < now + 300 * 1000000000))
   \<and> (CachedAt tr = 0 \<longrightarrow> IsExpired now tr)
   \<and> (ExpiresIn tr = 3600 \<and> CachedAt tr = now - 3000 * 1000000000 \<and> CachedAt tr \<noteq> 0 \<longrightarrow>
        \<not> IsExpired now tr)
   \<and> (ExpiresIn tr = 3600 \<and> CachedAt tr = now - 3400 * 1000000000 \<longrightarrow>
        IsExpired now tr)"
proof -
  have a: "- (2 ^ 63) \<le> ExpiresIn tr * 1000000000 \<and> ExpiresIn tr * 1000000000 < 2 ^ 63 \<longrightarrow>
      IsExpired now tr =
        (CachedAt tr = 0 \<or>
         CachedAt tr + ExpiresIn tr * 1000000000 < now + 300 * 1000000000)"
    by (simp add: IsExpired_unfold wrap64_id)
  have b: "CachedAt tr = 0 \<longrightarrow> IsExpired now tr"
    by (simp add: IsExpired_unfold)
  have c: "ExpiresIn tr = 3600 \<and> CachedAt tr = now - 3000 * 1000000000 \<and> CachedAt tr \<noteq> 0 \<longrightarrow>
        \<not> IsExpired now tr"
    by (simp add: IsExpired_unfold wrap64_def)
  have d: "ExpiresIn tr = 3600 \<and> CachedAt tr = now - 3400 * 1000000000 \<longrightarrow>
        IsExpired now tr"
    by (simp add: IsExpired_unfold wrap64_def)
  from a b c d show ?thesis by blast
qed

theorem IsExpired_strict_witness:
  "- (2 ^ 63) \<le> (3600::int) * 1000000000 \<and> (3600::int) * 1000000000 < 2 ^ 63
   \<and> IsExpired 5000000000000
      \<lparr>AccessToken = ''a'', TokenType = ''Bearer'', ExpiresIn = 3600,
       RefreshToken = ''r'', Scope = ''s'', CachedAt = 0\<rparr>
   \<and> \<not> IsExpired 5000000000000
      \<lparr>AccessToken = ''a'', TokenType = ''Bearer'', ExpiresIn = 3600,
       RefreshToken = ''r'', Scope = ''s'', CachedAt = 2000000000000\<rparr>
   \<and> IsExpired 5000000000000
      \<lparr>AccessToken = ''a'', TokenType = ''Bearer'', ExpiresIn = 3600,
       RefreshToken = ''r'', Scope = ''s'', CachedAt = 1600000000000\<rparr>"
  using
    IsExpired_strict [of "\<lparr>AccessToken = ''a'', TokenType = ''Bearer'', ExpiresIn = 3600,
       RefreshToken = ''r'', Scope = ''s'', CachedAt = 0\<rparr>" 5000000000000]
    IsExpired_strict [of "\<lparr>AccessToken = ''a'', TokenType = ''Bearer'', ExpiresIn = 3600,
       RefreshToken = ''r'', Scope = ''s'', CachedAt = 2000000000000\<rparr>" 5000000000000]
    IsExpired_strict [of "\<lparr>AccessToken = ''a'', TokenType = ''Bearer'', ExpiresIn = 3600,
       RefreshToken = ''r'', Scope = ''s'', CachedAt = 1600000000000\<rparr>" 5000000000000]
  by simp



text \<open>
  C8: when the codec gives back the stamped record from the bytes it wrote, the file
  can be written, and the stamped record is not expired when it is read, \<open>SaveToken\<close>
  followed by \<open>LoadToken\<close> succeeds and returns a record with the saved access token,
  refresh token and scope, and a time stamp that is not zero (it is the time of
  saving).
\<close>

theorem SaveToken_LoadToken_roundtrip:
  assumes "Marshal J (t\<lparr>CachedAt := now1\<rparr>) = Inr d"
    and "Unmarshal J d = Inr (t\<lparr>CachedAt := now1\<rparr>)"
    and "\<not> unwritable fs p"
    and "\<not> IsExpired now2 (t\<lparr>CachedAt := now1\<rparr>)"
  shows "\<exists>fs' r. SaveToken J fs p now1 t = (None, fs', t\<lparr>CachedAt := now1\<rparr>)
           \<and> LoadToken J fs' p now2 = Inr r
           \<and> AccessToken r = AccessToken t \<and> RefreshToken r = RefreshToken t
           \<and> Scope r = Scope t \<and> CachedAt r = now1 \<and> CachedAt r \<noteq> 0"
proof -
  let ?t = "t\<lparr>CachedAt := now1\<rparr>"
  let ?fs = "fs\<lparr>files := (files fs)(p \<mapsto> d)\<rparr>"
  have s: "SaveToken J fs p now1 t = (None, ?fs, ?t)"
    using assms(1,3) by (simp add: SaveToken_def os_WriteFile_def Let_def)
  have l: "LoadToken J ?fs p now2 = Inr ?t"
    using assms(2,4) by (simp add: LoadToken_def os_ReadFile_def)
  have z: "now1 \<noteq> 0"
    using assms(4) by (auto simp: IsExpired_def Time_IsZero_def)
  from s l z show ?thesis by simp
qed

theorem SaveToken_LoadToken_roundtrip_witness:
  "Marshal exampleCodec (exampleToken\<lparr>CachedAt := 1000\<rparr>) = Inr ''at''
   \<and> Unmarshal exampleCodec ''at'' = Inr (exampleToken\<lparr>CachedAt := 1000\<rparr>)
   \<and> \<not> unwritable exampleFS ''token.json''
   \<and> \<not> IsExpired 2000 (exampleToken\<lparr>CachedAt := 1000\<rparr>)
   \<and> (\<exists>fs' r. SaveToken exampleCodec exampleFS ''token.json'' 1000 exampleToken
                  = (None, fs', exampleToken\<lparr>CachedAt := 1000\<rparr>)
         \<and> LoadToken exampleCodec fs' ''token.json'' 2000 = Inr r
         \<and> AccessToken r = AccessToken exampleToken
         \<and> RefreshToken r = RefreshToken exampleToken
         \<and> Scope r = Scope exampleToken \<and> CachedAt r = 1000 \<and> CachedAt r \<noteq> 0)"
proof -
  have h1: "Marshal exampleCodec (exampleToken\<lparr>CachedAt := 1000\<rparr>) = Inr ''at''"
    by (simp add: exampleCodec_def exampleToken_def)
  have h2: "Unmarshal exampleCodec ''at'' = Inr (exampleToken\<lparr>CachedAt := 1000\<rparr>)"
    by (simp add: exampleCodec_def exampleToken_def)
  have h3: "\<not> unwritable exampleFS ''token.json''"
    by (simp add: exampleFS_def)
  have h4: "\<not> IsExpired 2000 (exampleToken\<lparr>CachedAt := 1000\<rparr>)"
    by (simp add: IsExpired_unfold exampleToken_def wrap64_def)
  from SaveToken_LoadToken_roundtrip [OF h1 h2 h3 h4] h1 h2 h3 h4 show ?thesis
    by blast
qed

section \<open>Properties of the session\<close>

text \<open>
  C6, as stated, fails on the authenticated flag: a session that has authenticated
  is still authenticated after \<open>Reset\<close>, so its state is not that of a fresh
  connection.
\<close>

theorem Reset_keeps_authenticated_counterexample:
  "authenticated
     (Reset (snd (plainCallback (NewSession \<lparr>username = ''u'', password = ''p''\<rparr>) [] ''u'' ''p'')))
   \<and> Reset (snd (plainCallback (NewSession \<lparr>username = ''u'', password = ''p''\<rparr>) [] ''u'' ''p''))
       \<noteq> NewSession \<lparr>username = ''u'', password = ''p''\<rparr>"
  by (simp add: Reset_def NewSession_def plainCallback_def)

text \<open>
  C6, amended: \<open>Reset\<close> empties the sender address and the recipient list and leaves
  the authenticated flag and the backend as they were; the state is that of a fresh
  connection exactly when the session had not authenticated; the session stays in
  use, and a recipient declared after the reset is the only one.
\<close>

theorem Reset_clears_envelope:
  "from' (Reset s) = [] \<and> to' (Reset s) = []
   \<and> authenticated (Reset s) = authenticated s
   \<and> backend (Reset s) = backend s
   \<and> (Reset s = NewSession (backend s)) = (\<not> authenticated s)
   \<and> Rcpt (Reset s) a = (None, (Reset s)\<lparr>to' := [a]\<rparr>)"
  by (cases s) (auto simp: Reset_def NewSession_def Rcpt_def)

section \<open>Properties of message submission\<close>

lemma Data_parsed:
  "ReadMessage L r = Inr msg \<Longrightarrow>
   Data L gc s r =
     (if ccAddressesOf L msg \<noteq> [] then
        (sendResult (gc (SendMailWithMultipleRecipients (to' s) (ccAddressesOf L msg)
            (decodeHeader L (Header msg ''Subject''))
            (fst (bodyOrPlaceholder L msg)) (snd (bodyOrPlaceholder L msg)))),
         [SendMailWithMultipleRecipients (to' s) (ccAddressesOf L msg)
            (decodeHeader L (Header msg ''Subject''))
            (fst (bodyOrPlaceholder L msg)) (snd (bodyOrPlaceholder L msg))])
      else
        (case to' s of
           [] \<Rightarrow> (Some NoRecipients, [])
         | t0 # ts \<Rightarrow>
             (sendResult (gc (SendMail t0 (decodeHeader L (Header msg ''Subject''))
                (fst (bodyOrPlaceholder L msg)) (snd (bodyOrPlaceholder L msg)))),
              [SendMail t0 (decodeHeader L (Header msg ''Subject''))
                (fst (bodyOrPlaceholder L msg)) (snd (bodyOrPlaceholder L msg))])))"
  by (simp add: Data_def Let_def split: prod.splits list.splits)

lemma Data_unparsed:
  "ReadMessage L r = Inl e \<Longrightarrow> Data L gc s r = (Some (MessageParseError e), [])"
  by (simp add: Data_def)

lemma example_ReadMessage: "ReadMessage (exampleLib m ps) r = Inr m"
  by (simp add: exampleLib_def)

lemma example_ParseMediaType:
  "ParseMediaType (exampleLib m ps) v =
     (v, (\<lambda>k. []), if v = [] then Some (LibError ''mime: no media type'') else None)"
  by (simp add: exampleLib_def)

lemma example_EqualFold: "EqualFold (exampleLib m ps) a b = (a = b)"
  by (simp add: exampleLib_def)

lemma example_MultipartParts: "MultipartParts (exampleLib m ps) body boundary = ps"
  by (simp add: exampleLib_def)

lemma example_decodeHeader: "decodeHeader (exampleLib m ps) h = h"
  by (simp add: decodeHeader_def exampleLib_def)

lemma example_ccAddressesOf:
  "ccAddressesOf (exampleLib m' ps) (exampleMessage kvs c) =
     (if exampleHeader kvs ''Cc'' \<noteq> [] then [exampleHeader kvs ''Cc''] else [])"
  by (simp add: ccAddressesOf_def exampleLib_def exampleMessage_def)

lemma example_to: "to' exampleSession = [''a@example.com'', ''b@example.com'']"
  by (simp add: exampleSession_def Rcpt_def Mail_def NewSession_def)

lemma example_body_plain:
  "exampleHeader kvs ''Content-Type'' = [] \<Longrightarrow>
   bodyOrPlaceholder (exampleLib m' ps) (exampleMessage kvs c) = (c, False)"
  by (simp add: bodyOrPlaceholder_def extractBody_def exampleMessage_def
      example_ParseMediaType)

lemma example_body_multipart_empty:
  "exampleHeader kvs ''Content-Type'' = ''multipart/mixed'' \<Longrightarrow>
   extractBody (exampleLib m' []) (exampleMessage kvs c) = Inl NoBodyFound"
  by (simp add: extractBody_def exampleMessage_def example_ParseMediaType
      extractMultipartBody_def example_MultipartParts HasPrefix_def)

lemma Data_no_recipients_no_cc:
  "to' s = [] \<Longrightarrow> ReadMessage L r = Inr msg \<Longrightarrow> ccAddressesOf L msg = [] \<Longrightarrow>
   Data L gc s r = (Some NoRecipients, [])"
  by (simp add: Data_parsed)

lemma Data_no_recipients_cc:
  "to' s = [] \<Longrightarrow> ReadMessage L r = Inr msg \<Longrightarrow> ccAddressesOf L msg \<noteq> [] \<Longrightarrow>
   snd (Data L gc s r) =
     [SendMailWithMultipleRecipients [] (ccAddressesOf L msg)
        (decodeHeader L (Header msg ''Subject''))
        (fst (bodyOrPlaceholder L msg)) (snd (bodyOrPlaceholder L msg))]"
  by (simp add: Data_parsed)

text \<open>
  C2 holds only without a \<open>Cc\<close> address: a session with no recipient whose message
  parses and carries none fails with the no-recipients error and makes no call
  (\<open>Data_no_recipients_no_cc\<close>). The check for an empty recipient list stands in the
  branch of the single-recipient send alone: where the message has a \<open>Cc\<close> address,
  \<open>Data\<close> calls the multi-recipient send with an empty recipient list and succeeds
  when the Graph client does.
\<close>

theorem Data_cc_without_recipients:
  "to' (NewSession exampleBackend) = []
   \<and> Data
      (exampleLib (exampleMessage [(''Subject'', ''Hi''), (''Cc'', ''c@example.com'')] ''Hello'') [])
      (\<lambda>c. None) (NewSession exampleBackend) ''raw''
     = (None, [SendMailWithMultipleRecipients [] [''c@example.com''] ''Hi'' ''Hello'' False])"
proof -
  let ?m = "exampleMessage [(''Subject'', ''Hi''), (''Cc'', ''c@example.com'')] ''Hello''"
  have c: "ccAddressesOf (exampleLib ?m []) ?m = [''c@example.com'']"
    by (simp add: example_ccAddressesOf exampleHeader_def)
  have b: "bodyOrPlaceholder (exampleLib ?m []) ?m = (''Hello'', False)"
    by (rule example_body_plain) (simp add: exampleHeader_def)
  have h: "Header ?m ''Subject'' = ''Hi''"
    by (simp add: exampleMessage_def exampleHeader_def)
  have t: "to' (NewSession exampleBackend) = []"
    by (simp add: NewSession_def)
  show ?thesis
    using c b h t
    by (simp add: Data_parsed [OF example_ReadMessage] example_decodeHeader sendResult_def)
qed

text \<open>
  C5: for a message that parses, a non-empty list of \<open>Cc\<close> addresses makes \<open>Data\<close>
  call the multi-recipient send, once, with all declared recipients and all \<open>Cc\<close>
  addresses; an empty one makes it call the single-recipient send, once, with the
  first declared recipient, however many were declared after it. The subject is the
  decoded \<open>Subject\<close> field and the body is the extracted one or the placeholder.
\<close>

theorem Data_send_path:
  "(ReadMessage L r = Inr msg \<and> ccAddressesOf L msg \<noteq> [] \<longrightarrow>
      snd (Data L gc s r) =
        [SendMailWithMultipleRecipients (to' s) (ccAddressesOf L msg)
           (decodeHeader L (Header msg ''Subject''))
           (fst (bodyOrPlaceholder L msg)) (snd (bodyOrPlaceholder L msg))])
   \<and> (ReadMessage L r = Inr msg \<and> ccAddressesOf L msg = [] \<and> to' s = t0 # ts \<longrightarrow>
      snd (Data L gc s r) =
        [SendMail t0 (decodeHeader L (Header msg ''Subject''))
           (fst (bodyOrPlaceholder L msg)) (snd (bodyOrPlaceholder L msg))])"
  by (simp add: Data_parsed)

theorem Data_send_path_witness:
  "ReadMessage
      (exampleLib (exampleMessage [(''Subject'', ''Hi''), (''Cc'', ''c@example.com'')] ''Hello'') [])
      ''raw'' =
     Inr (exampleMessage [(''Subject'', ''Hi''), (''Cc'', ''c@example.com'')] ''Hello'')
   \<and> ccAddressesOf
      (exampleLib (exampleMessage [(''Subject'', ''Hi''), (''Cc'', ''c@example.com'')] ''Hello'') [])
      (exampleMessage [(''Subject'', ''Hi''), (''Cc'', ''c@example.com'')] ''Hello'') \<noteq> []
   \<and> snd (Data
      (exampleLib (exampleMessage [(''Subject'', ''Hi''), (''Cc'', ''c@example.com'')] ''Hello'') [])
      (\<lambda>c. None) exampleSession ''raw'') =
     [SendMailWithMultipleRecipients [''a@example.com'', ''b@example.com''] [''c@example.com'']
        ''Hi'' ''Hello'' False]
   \<and> ReadMessage (exampleLib (exampleMessage [(''Subject'', ''Hi'')] ''Hello'') []) ''raw'' =
     Inr (exampleMessage [(''Subject'', ''Hi'')] ''Hello'')
   \<and> ccAddressesOf (exampleLib (exampleMessage [(''Subject'', ''Hi'')] ''Hello'') [])
      (exampleMessage [(''Subject'', ''Hi'')] ''Hello'') = []
   \<and> to' exampleSession = ''a@example.com'' # [''b@example.com'']
   \<and> snd (Data (exampleLib (exampleMessage [(''Subject'', ''Hi'')] ''Hello'') [])
      (\<lambda>c. None) exampleSession ''raw'') =
     [SendMail ''a@example.com'' ''Hi'' ''Hello'' False]"
  using
    Data_send_path [of
      "exampleLib (exampleMessage [(''Subject'', ''Hi''), (''Cc'', ''c@example.com'')] ''Hello'') []"
      "''raw''" "exampleMessage [(''Subject'', ''Hi''), (''Cc'', ''c@example.com'')] ''Hello''"
      "\<lambda>c. None" exampleSession]
    Data_send_path [of
      "exampleLib (exampleMessage [(''Subject'', ''Hi'')] ''Hello'') []"
      "''raw''" "exampleMessage [(''Subject'', ''Hi'')] ''Hello''"
      "\<lambda>c. None" exampleSession "''a@example.com''" "[''b@example.com'']"]
  by (simp add: example_ReadMessage example_ccAddressesOf example_to example_decodeHeader
      example_body_plain exampleHeader_def)
     (simp add: exampleMessage_def exampleHeader_def)

text \<open>
  C9: where the message parses and the extraction of its body fails, \<open>Data\<close> goes on
  with the placeholder body and \<open>isHTML = false\<close>: it makes the call it would make
  with an extracted body (the multi-recipient send where there is a \<open>Cc\<close> address,
  else the single-recipient send to the first recipient), and what it returns is
  what the Graph client answers. The one submission that ends without a call is the
  one with neither a \<open>Cc\<close> address nor a recipient, which fails for that reason.
\<close>

theorem Data_placeholder:
  "(ReadMessage L r = Inr msg \<and> extractBody L msg = Inl e \<and> ccAddressesOf L msg \<noteq> [] \<longrightarrow>
      Data L gc s r =
        (sendResult (gc (SendMailWithMultipleRecipients (to' s) (ccAddressesOf L msg)
            (decodeHeader L (Header msg ''Subject'')) placeholderBody False)),
         [SendMailWithMultipleRecipients (to' s) (ccAddressesOf L msg)
            (decodeHeader L (Header msg ''Subject'')) placeholderBody False]))
   \<and> (ReadMessage L r = Inr msg \<and> extractBody L msg = Inl e \<and> ccAddressesOf L msg = []
        \<and> to' s = t0 # ts \<longrightarrow>
      Data L gc s r =
        (sendResult (gc (SendMail t0 (decodeHeader L (Header msg ''Subject''))
            placeholderBody False)),
         [SendMail t0 (decodeHeader L (Header msg ''Subject'')) placeholderBody False]))
   \<and> (ReadMessage L r = Inr msg \<and> extractBody L msg = Inl e \<and> ccAddressesOf L msg = []
        \<and> to' s = [] \<longrightarrow>
      Data L gc s r = (Some NoRecipients, []))"
  by (simp add: Data_parsed bodyOrPlaceholder_def)

theorem Data_placeholder_witness:
  "extractBody
      (exampleLib (exampleMessage [(''Content-Type'', ''multipart/mixed''), (''Cc'', ''c@example.com'')] []) [])
      (exampleMessage [(''Content-Type'', ''multipart/mixed''), (''Cc'', ''c@example.com'')] [])
     = Inl NoBodyFound
   \<and> Data
      (exampleLib (exampleMessage [(''Content-Type'', ''multipart/mixed''), (''Cc'', ''c@example.com'')] []) [])
      (\<lambda>c. None) exampleSession ''raw''
     = (None, [SendMailWithMultipleRecipients [''a@example.com'', ''b@example.com'']
                 [''c@example.com''] [] placeholderBody False])
   \<and> extractBody
      (exampleLib (exampleMessage [(''Content-Type'', ''multipart/mixed'')] []) [])
      (exampleMessage [(''Content-Type'', ''multipart/mixed'')] [])
     = Inl NoBodyFound
   \<and> Data (exampleLib (exampleMessage [(''Content-Type'', ''multipart/mixed'')] []) [])
      (\<lambda>c. None) exampleSession ''raw''
     = (None, [SendMail ''a@example.com'' [] placeholderBody False])
   \<and> to' (NewSession exampleBackend) = []
   \<and> Data (exampleLib (exampleMessage [(''Content-Type'', ''multipart/mixed'')] []) [])
      (\<lambda>c. None) (NewSession exampleBackend) ''raw''
     = (Some NoRecipients, [])"
proof -
  let ?m1 = "exampleMessage [(''Content-Type'', ''multipart/mixed''), (''Cc'', ''c@example.com'')] []"
  let ?m2 = "exampleMessage [(''Content-Type'', ''multipart/mixed'')] []"
  have e1: "extractBody (exampleLib ?m1 []) ?m1 = Inl NoBodyFound"
    by (rule example_body_multipart_empty) (simp add: exampleHeader_def)
  have e2: "extractBody (exampleLib ?m2 []) ?m2 = Inl NoBodyFound"
    by (rule example_body_multipart_empty) (simp add: exampleHeader_def)
  have c1: "ccAddressesOf (exampleLib ?m1 []) ?m1 = [''c@example.com'']"
    by (simp add: example_ccAddressesOf exampleHeader_def)
  have c2: "ccAddressesOf (exampleLib ?m2 []) ?m2 = []"
    by (simp add: example_ccAddressesOf exampleHeader_def)
  have s1: "Header ?m1 ''Subject'' = []" "Header ?m2 ''Subject'' = []"
    by (simp_all add: exampleMessage_def exampleHeader_def)
  have t0: "to' (NewSession exampleBackend) = []"
    by (simp add: NewSession_def)
  have d1: "Data (exampleLib ?m1 []) (\<lambda>c. None) exampleSession ''raw''
     = (None, [SendMailWithMultipleRecipients [''a@example.com'', ''b@example.com'']
                 [''c@example.com''] [] placeholderBody False])"
    using Data_placeholder [where L = "exampleLib ?m1 []" and r = "''raw''" and msg = ?m1
        and e = NoBodyFound and s = exampleSession and gc = "\<lambda>c. None"]
      e1 c1 s1
    by (simp add: example_ReadMessage example_to example_decodeHeader sendResult_def)
  have d2: "Data (exampleLib ?m2 []) (\<lambda>c. None) exampleSession ''raw''
     = (None, [SendMail ''a@example.com'' [] placeholderBody False])"
    using Data_placeholder [where L = "exampleLib ?m2 []" and r = "''raw''" and msg = ?m2
        and e = NoBodyFound and s = exampleSession and ?t0.0 = "''a@example.com''"
        and ts = "[''b@example.com'']" and gc = "\<lambda>c. None"]
      e2 c2 s1
    by (simp add: example_ReadMessage example_to example_decodeHeader sendResult_def)
  have d3: "Data (exampleLib ?m2 []) (\<lambda>c. None) (NewSession exampleBackend) ''raw''
     = (Some NoRecipients, [])"
    using Data_placeholder [where L = "exampleLib ?m2 []" and r = "''raw''" and msg = ?m2
        and e = NoBodyFound and s = "NewSession exampleBackend" and gc = "\<lambda>c. None"]
      e2 c2 t0
    by (simp add: example_ReadMessage)
  from e1 e2 t0 d1 d2 d3 show ?thesis by simp
qed

section \<open>Properties of multipart extraction\<close>

lemma HasPrefix_Cons:
  "HasPrefix m (a # p) = (case m of [] \<Rightarrow> False | b # m' \<Rightarrow> a = b \<and> HasPrefix m' p)"
  by (cases m) (auto simp: HasPrefix_def)

lemma HasPrefix_Nil: "HasPrefix m [] = True"
  by (simp add: HasPrefix_def)

lemma plain_not_html: "HasPrefix m ''text/plain'' \<Longrightarrow> \<not> HasPrefix m ''text/html''"
  by (auto simp: HasPrefix_Cons split: list.splits)

lemma multipart_not_text:
  "HasPrefix m ''multipart/'' \<Longrightarrow> \<not> HasPrefix m ''text/plain'' \<and> \<not> HasPrefix m ''text/html''"
  by (cases m) (auto simp: HasPrefix_Cons)

lemma extractParts_retained:
  "list_all isPart ps \<Longrightarrow>
   extractParts L ps t h =
     extractParts L [] (last (t # textsOfKind L ''text/plain'' ps))
       (last (h # textsOfKind L ''text/html'' ps))"
proof (induction ps arbitrary: t h)
  case Nil
  then show ?case by simp
next
  case (Cons r ps)
  then show ?case
  proof (cases r)
    case (NextPartError e)
    with Cons show ?thesis by simp
  next
    case (NextPart p)
    with Cons.prems have ps: "list_all isPart ps" by simp
    show ?thesis
    proof (cases "PartBytes p")
      case (Inl e)
      with NextPart Cons.IH [OF ps] show ?thesis by simp
    next
      case (Inr b)
      with NextPart Cons.IH [OF ps] show ?thesis
        by (auto simp: Let_def partMediaType_def partText_def dest: plain_not_html)
    qed
  qed
qed

lemma extractParts_first_error:
  "list_all isPart ps \<Longrightarrow> extractParts L (ps @ NextPartError e # qs) t h = Inl e"
proof (induction ps arbitrary: t h)
  case Nil
  then show ?case by simp
next
  case (Cons r ps)
  then show ?case
    by (cases r) (auto simp: Let_def split: sum.splits)
qed

lemma textsOfKind_filter_same:
  "textsOfKind L kind (filter (notOfKind L kind) ps) = []"
  by (induction ps rule: textsOfKind.induct) (auto split: sum.splits)

lemma textsOfKind_filter_other:
  "(\<And>m. HasPrefix m kind \<Longrightarrow> \<not> HasPrefix m other) \<Longrightarrow>
   textsOfKind L kind (filter (notOfKind L other) ps) = textsOfKind L kind ps"
  by (induction ps rule: textsOfKind.induct) (auto split: sum.splits)

lemma textsOfKind_append:
  "textsOfKind L kind (ps @ qs) = textsOfKind L kind ps @ textsOfKind L kind qs"
  by (induction ps rule: textsOfKind.induct) (auto split: sum.splits)

lemma list_all_isPart_filter: "list_all isPart ps \<Longrightarrow> list_all isPart (filter P ps)"
  by (induction ps) auto


lemma retained_last: "last ([] # xs) = retained xs"
  by (simp add: retained_def)

lemma retained_all_empty: "list_all (\<lambda>x. x = []) xs \<Longrightarrow> retained xs = []"
  by (cases "xs = []") (auto simp: retained_def list_all_iff)

lemma extractParts_skip_other:
  "\<not> HasPrefix (partMediaType L p) ''text/plain'' \<Longrightarrow>
   \<not> HasPrefix (partMediaType L p) ''text/html'' \<Longrightarrow>
   extractParts L (qs @ NextPart p # rs) t h = extractParts L (qs @ rs) t h"
proof (induction qs arbitrary: t h)
  case Nil
  then show ?case
    by (auto simp: Let_def partMediaType_def split: sum.splits)
next
  case (Cons r qs)
  then show ?case
    by (cases r) (auto simp: Let_def split: sum.splits)
qed

lemma extractMultipartBody_retained:
  "MultipartParts L body boundary = ps \<Longrightarrow> list_all isPart ps \<Longrightarrow>
   extractMultipartBody L body boundary =
     extractParts L [] (retained (textsOfKind L ''text/plain'' ps))
       (retained (textsOfKind L ''text/html'' ps))"
proof -
  assume a: "MultipartParts L body boundary = ps" and b: "list_all isPart ps"
  have "extractParts L ps [] [] =
      extractParts L [] (last ([] # textsOfKind L ''text/plain'' ps))
        (last ([] # textsOfKind L ''text/html'' ps))"
    using b by (rule extractParts_retained)
  then show ?thesis
    by (simp only: retained_last extractMultipartBody_def a)
qed

lemma example_texts_plain:
  "textsOfKind (exampleLib m qs) kind (examplePart ct c # ps) =
     (if HasPrefix ct kind then c # textsOfKind (exampleLib m qs) kind ps
      else textsOfKind (exampleLib m qs) kind ps)"
  by (simp add: examplePart_def partMediaType_def partText_def exampleHeader_def
      example_ParseMediaType decodeTransferEncoding_def example_EqualFold)

lemma retained_Nil: "retained [] = []"
  by (simp add: retained_def)

text \<open>
  C1, as stated, fails on a second part of the same kind: of two \<open>text/plain\<close>
  parts the loop keeps the second, since each part of a kind overwrites the variable
  that held the one before.
\<close>

theorem extractMultipartBody_last_of_kind_counterexample:
  "extractMultipartBody
     (exampleLib (exampleMessage [] [])
        [examplePart ''text/plain'' ''first'', examplePart ''text/plain'' ''second''])
     (Inr []) ''b''
   = Inr (''second'', False)"
  by (simp add: extractMultipartBody_def examplePart_def exampleHeader_def
      decodeTransferEncoding_def HasPrefix_def
      example_ParseMediaType example_EqualFold example_MultipartParts)

text \<open>
  C1, amended: for a multipart body all of whose parts the reader delivers, the
  extraction goes through the parts in order and retains the last readable part
  whose media type begins with \<open>text/plain\<close> and the last one whose media type
  begins with \<open>text/html\<close>; it returns the retained HTML text with \<open>isHTML = true\<close>
  when that is not empty, else the retained plain text with \<open>isHTML = false\<close> when
  that is not empty, else the no-body-found error. A nested \<open>multipart/*\<close> part is
  skipped: the result is the one without it. An error of the reader ends the
  extraction with that error.
\<close>

theorem extractMultipartBody_last_of_kind:
  "(MultipartParts L body boundary = ps \<and> list_all isPart ps \<longrightarrow>
      extractMultipartBody L body boundary =
        (if retained (textsOfKind L ''text/html'' ps) \<noteq> []
         then Inr (retained (textsOfKind L ''text/html'' ps), True)
         else if retained (textsOfKind L ''text/plain'' ps) \<noteq> []
         then Inr (retained (textsOfKind L ''text/plain'' ps), False)
         else Inl NoBodyFound))
   \<and> (HasPrefix (partMediaType L p) ''multipart/'' \<longrightarrow>
        extractParts L (qs @ NextPart p # rs) t h = extractParts L (qs @ rs) t h)
   \<and> (list_all isPart qs \<longrightarrow> extractParts L (qs @ NextPartError e # rs) t h = Inl e)"
proof -
  have a: "MultipartParts L body boundary = ps \<and> list_all isPart ps \<longrightarrow>
      extractMultipartBody L body boundary =
        (if retained (textsOfKind L ''text/html'' ps) \<noteq> []
         then Inr (retained (textsOfKind L ''text/html'' ps), True)
         else if retained (textsOfKind L ''text/plain'' ps) \<noteq> []
         then Inr (retained (textsOfKind L ''text/plain'' ps), False)
         else Inl NoBodyFound)"
    by (simp add: extractMultipartBody_retained)
  have b: "HasPrefix (partMediaType L p) ''multipart/'' \<longrightarrow>
        extractParts L (qs @ NextPart p # rs) t h = extractParts L (qs @ rs) t h"
    using multipart_not_text [of "partMediaType L p"] extractParts_skip_other [of L p qs rs t h]
    by blast
  have c: "list_all isPart qs \<longrightarrow> extractParts L (qs @ NextPartError e # rs) t h = Inl e"
    by (simp add: extractParts_first_error)
  from a b c show ?thesis by blast
qed

theorem extractMultipartBody_last_of_kind_witness:
  "MultipartParts
      (exampleLib (exampleMessage [] [])
         [examplePart ''text/plain'' ''Hello'', examplePart ''text/html'' ''<b>Hello</b>''])
      (Inr []) ''b''
     = [examplePart ''text/plain'' ''Hello'', examplePart ''text/html'' ''<b>Hello</b>'']
   \<and> list_all isPart [examplePart ''text/plain'' ''Hello'', examplePart ''text/html'' ''<b>Hello</b>'']
   \<and> extractMultipartBody
      (exampleLib (exampleMessage [] [])
         [examplePart ''text/plain'' ''Hello'', examplePart ''text/html'' ''<b>Hello</b>''])
      (Inr []) ''b''
     = Inr (''<b>Hello</b>'', True)
   \<and> HasPrefix
        (partMediaType (exampleLib (exampleMessage [] []) [])
           \<lparr>PartHeader = exampleHeader [(''Content-Type'', ''multipart/alternative'')],
            PartBytes = Inr ''nested''\<rparr>) ''multipart/''
   \<and> extractParts (exampleLib (exampleMessage [] []) [])
        ([examplePart ''text/plain'' ''Hello''] @
          NextPart \<lparr>PartHeader = exampleHeader [(''Content-Type'', ''multipart/alternative'')],
            PartBytes = Inr ''nested''\<rparr> # []) [] []
     = Inr (''Hello'', False)
   \<and> extractParts (exampleLib (exampleMessage [] []) [])
        ([examplePart ''text/plain'' ''Hello''] @ NextPartError (LibError ''multipart: NextPart: EOF'') # [])
        [] []
     = Inl (LibError ''multipart: NextPart: EOF'')"
proof -
  let ?L = "exampleLib (exampleMessage [] [])
         [examplePart ''text/plain'' ''Hello'', examplePart ''text/html'' ''<b>Hello</b>'']"
  let ?K = "exampleLib (exampleMessage [] []) []"
  let ?ps = "[examplePart ''text/plain'' ''Hello'', examplePart ''text/html'' ''<b>Hello</b>'']"
  let ?n = "\<lparr>PartHeader = exampleHeader [(''Content-Type'', ''multipart/alternative'')],
            PartBytes = Inr ''nested''\<rparr>"
  have h1: "MultipartParts ?L (Inr []) ''b'' = ?ps"
    by (rule example_MultipartParts)
  have h2: "list_all isPart ?ps"
    by (simp add: examplePart_def)
  have h3: "HasPrefix (partMediaType ?K ?n) ''multipart/''"
    by (simp add: partMediaType_def example_ParseMediaType exampleHeader_def HasPrefix_def)
  have h4: "list_all isPart [examplePart ''text/plain'' ''Hello'']"
    by (simp add: examplePart_def)
  have th: "textsOfKind ?L ''text/html'' ?ps = [''<b>Hello</b>'']"
    by (simp add: example_texts_plain HasPrefix_def)
  have a: "extractMultipartBody ?L (Inr []) ''b'' = Inr (''<b>Hello</b>'', True)"
    using extractMultipartBody_last_of_kind [where L = ?L and body = "Inr []" and boundary = "''b''"
        and ps = ?ps] h1 h2 th
    by (simp add: retained_def)
  have p: "extractParts ?K [examplePart ''text/plain'' ''Hello''] [] [] = Inr (''Hello'', False)"
    by (simp add: examplePart_def exampleHeader_def example_ParseMediaType
        decodeTransferEncoding_def example_EqualFold HasPrefix_def)
  have b: "extractParts ?K ([examplePart ''text/plain'' ''Hello''] @ NextPart ?n # []) [] []
      = Inr (''Hello'', False)"
    using extractMultipartBody_last_of_kind [where L = ?K and p = ?n
        and qs = "[examplePart ''text/plain'' ''Hello'']" and rs = "[]" and t = "[]" and h = "[]"]
      h3 p
    by simp
  have c: "extractParts ?K
        ([examplePart ''text/plain'' ''Hello''] @ NextPartError (LibError ''multipart: NextPart: EOF'') # [])
        [] [] = Inl (LibError ''multipart: NextPart: EOF'')"
    using extractMultipartBody_last_of_kind [where L = ?K
        and qs = "[examplePart ''text/plain'' ''Hello'']" and rs = "[]" and t = "[]" and h = "[]"
        and e = "LibError ''multipart: NextPart: EOF''"] h4
    by blast
  from h1 h2 h3 a b c show ?thesis by blast
qed

text \<open>
  C10: a kind whose retained text is empty counts as not captured. When the retained
  HTML text is empty the extraction returns what it returns on the body without its
  \<open>text/html\<close> parts, that is the retained plain text if there is one and the
  no-body-found error otherwise, so an empty HTML part does not win over a
  non-empty plain part; likewise for an empty plain text; and when every text part
  decodes to the empty string the extraction fails with the no-body-found error.
\<close>

theorem extractMultipartBody_empty_text:
  "(MultipartParts L body boundary = ps \<and> list_all isPart ps
      \<and> retained (textsOfKind L ''text/html'' ps) = [] \<longrightarrow>
        extractMultipartBody L body boundary
          = extractParts L (filter (notOfKind L ''text/html'') ps) [] []
        \<and> extractMultipartBody L body boundary
          = (if retained (textsOfKind L ''text/plain'' ps) \<noteq> []
             then Inr (retained (textsOfKind L ''text/plain'' ps), False)
             else Inl NoBodyFound))
   \<and> (MultipartParts L body boundary = ps \<and> list_all isPart ps
      \<and> retained (textsOfKind L ''text/plain'' ps) = [] \<longrightarrow>
        extractMultipartBody L body boundary
          = extractParts L (filter (notOfKind L ''text/plain'') ps) [] [])
   \<and> (MultipartParts L body boundary = ps \<and> list_all isPart ps
      \<and> list_all (\<lambda>x. x = []) (textsOfKind L ''text/html'' ps)
      \<and> list_all (\<lambda>x. x = []) (textsOfKind L ''text/plain'' ps) \<longrightarrow>
        extractMultipartBody L body boundary = Inl NoBodyFound)"
proof -
  have html_plain: "\<And>m. HasPrefix m ''text/html'' \<Longrightarrow> \<not> HasPrefix m ''text/plain''"
    using plain_not_html by blast
  have a: "extractMultipartBody L body boundary
          = extractParts L (filter (notOfKind L ''text/html'') ps) [] []
        \<and> extractMultipartBody L body boundary
          = (if retained (textsOfKind L ''text/plain'' ps) \<noteq> []
             then Inr (retained (textsOfKind L ''text/plain'' ps), False)
             else Inl NoBodyFound)"
    if h: "MultipartParts L body boundary = ps" "list_all isPart ps"
      "retained (textsOfKind L ''text/html'' ps) = []"
  proof -
    let ?qs = "filter (notOfKind L ''text/html'') ps"
    have q: "list_all isPart ?qs"
      using h(2) by (rule list_all_isPart_filter)
    have "extractParts L ?qs [] [] =
        extractParts L [] (last ([] # textsOfKind L ''text/plain'' ?qs))
          (last ([] # textsOfKind L ''text/html'' ?qs))"
      using q by (rule extractParts_retained)
    then have r: "extractParts L ?qs [] [] =
        extractParts L [] (retained (textsOfKind L ''text/plain'' ps)) []"
      by (simp only: retained_last textsOfKind_filter_same
          textsOfKind_filter_other [OF plain_not_html] retained_Nil)
    have l: "extractMultipartBody L body boundary =
        extractParts L [] (retained (textsOfKind L ''text/plain'' ps)) []"
      using extractMultipartBody_retained [OF h(1,2)] h(3) by simp
    from l r show ?thesis by simp
  qed
  have b: "extractMultipartBody L body boundary
          = extractParts L (filter (notOfKind L ''text/plain'') ps) [] []"
    if h: "MultipartParts L body boundary = ps" "list_all isPart ps"
      "retained (textsOfKind L ''text/plain'' ps) = []"
  proof -
    let ?qs = "filter (notOfKind L ''text/plain'') ps"
    have q: "list_all isPart ?qs"
      using h(2) by (rule list_all_isPart_filter)
    have "extractParts L ?qs [] [] =
        extractParts L [] (last ([] # textsOfKind L ''text/plain'' ?qs))
          (last ([] # textsOfKind L ''text/html'' ?qs))"
      using q by (rule extractParts_retained)
    then have r: "extractParts L ?qs [] [] =
        extractParts L [] [] (retained (textsOfKind L ''text/html'' ps))"
      by (simp only: retained_last textsOfKind_filter_same
          textsOfKind_filter_other [OF html_plain] retained_Nil)
    have l: "extractMultipartBody L body boundary =
        extractParts L [] [] (retained (textsOfKind L ''text/html'' ps))"
      using extractMultipartBody_retained [OF h(1,2)] h(3) by simp
    from l r show ?thesis by simp
  qed
  have c: "extractMultipartBody L body boundary = Inl NoBodyFound"
    if h: "MultipartParts L body boundary = ps" "list_all isPart ps"
      "list_all (\<lambda>x. x = []) (textsOfKind L ''text/html'' ps)"
      "list_all (\<lambda>x. x = []) (textsOfKind L ''text/plain'' ps)"
    using extractMultipartBody_retained [OF h(1,2)]
      retained_all_empty [OF h(3)] retained_all_empty [OF h(4)]
    by simp
  from a b c show ?thesis by blast
qed


theorem extractMultipartBody_empty_text_witness:
  "list_all isPart [examplePart ''text/plain'' ''Hello'', examplePart ''text/html'' []]
   \<and> retained (textsOfKind
        (exampleLib (exampleMessage [] [])
          [examplePart ''text/plain'' ''Hello'', examplePart ''text/html'' []])
        ''text/html'' [examplePart ''text/plain'' ''Hello'', examplePart ''text/html'' []]) = []
   \<and> extractMultipartBody
        (exampleLib (exampleMessage [] [])
          [examplePart ''text/plain'' ''Hello'', examplePart ''text/html'' []])
        (Inr []) ''b''
      = Inr (''Hello'', False)
   \<and> list_all isPart [examplePart ''text/plain'' [], examplePart ''text/html'' ''<p>'']
   \<and> retained (textsOfKind
        (exampleLib (exampleMessage [] [])
          [examplePart ''text/plain'' [], examplePart ''text/html'' ''<p>''])
        ''text/plain'' [examplePart ''text/plain'' [], examplePart ''text/html'' ''<p>'']) = []
   \<and> extractMultipartBody
        (exampleLib (exampleMessage [] [])
          [examplePart ''text/plain'' [], examplePart ''text/html'' ''<p>''])
        (Inr []) ''b''
      = extractParts
        (exampleLib (exampleMessage [] [])
          [examplePart ''text/plain'' [], examplePart ''text/html'' ''<p>''])
        [examplePart ''text/html'' ''<p>''] [] []
   \<and> list_all isPart [examplePart ''text/plain'' [], examplePart ''text/html'' []]
   \<and> list_all (\<lambda>x. x = []) (textsOfKind
        (exampleLib (exampleMessage [] [])
          [examplePart ''text/plain'' [], examplePart ''text/html'' []])
        ''text/html'' [examplePart ''text/plain'' [], examplePart ''text/html'' []])
   \<and> list_all (\<lambda>x. x = []) (textsOfKind
        (exampleLib (exampleMessage [] [])
          [examplePart ''text/plain'' [], examplePart ''text/html'' []])
        ''text/plain'' [examplePart ''text/plain'' [], examplePart ''text/html'' []])
   \<and> extractMultipartBody
        (exampleLib (exampleMessage [] [])
          [examplePart ''text/plain'' [], examplePart ''text/html'' []])
        (Inr []) ''b''
      = Inl NoBodyFound"
proof -
  let ?p1 = "[examplePart ''text/plain'' ''Hello'', examplePart ''text/html'' []]"
  let ?p2 = "[examplePart ''text/plain'' [], examplePart ''text/html'' ''<p>'']"
  let ?p3 = "[examplePart ''text/plain'' [], examplePart ''text/html'' []]"
  let ?A = "exampleLib (exampleMessage [] []) ?p1"
  let ?B = "exampleLib (exampleMessage [] []) ?p2"
  let ?C = "exampleLib (exampleMessage [] []) ?p3"
  have parts: "list_all isPart ?p1" "list_all isPart ?p2" "list_all isPart ?p3"
    by (simp_all add: examplePart_def)
  have t1: "textsOfKind ?A ''text/html'' ?p1 = [[]]"
    "textsOfKind ?A ''text/plain'' ?p1 = [''Hello'']"
    by (simp_all add: example_texts_plain HasPrefix_def)
  have t2: "textsOfKind ?B ''text/plain'' ?p2 = [[]]"
    by (simp add: example_texts_plain HasPrefix_def)
  have f2: "filter (notOfKind ?B ''text/plain'') ?p2 = [examplePart ''text/html'' ''<p>'']"
    by (simp add: examplePart_def partMediaType_def example_ParseMediaType exampleHeader_def
        HasPrefix_def)
  have t3: "textsOfKind ?C ''text/html'' ?p3 = [[]]" "textsOfKind ?C ''text/plain'' ?p3 = [[]]"
    by (simp_all add: example_texts_plain HasPrefix_def)
  have r1: "retained (textsOfKind ?A ''text/html'' ?p1) = []"
    by (simp add: t1 retained_def)
  have r2: "retained (textsOfKind ?B ''text/plain'' ?p2) = []"
    by (simp add: t2 retained_def)
  have m: "MultipartParts ?A (Inr []) ''b'' = ?p1" "MultipartParts ?B (Inr []) ''b'' = ?p2"
    "MultipartParts ?C (Inr []) ''b'' = ?p3"
    by (rule example_MultipartParts)+
  have e3: "list_all (\<lambda>x. x = []) (textsOfKind ?C ''text/html'' ?p3)"
    "list_all (\<lambda>x. x = []) (textsOfKind ?C ''text/plain'' ?p3)"
    by (simp_all only: t3) simp_all
  have a: "extractMultipartBody ?A (Inr []) ''b'' = Inr (''Hello'', False)"
  proof -
    have "extractMultipartBody ?A (Inr []) ''b''
        = (if retained (textsOfKind ?A ''text/plain'' ?p1) \<noteq> []
           then Inr (retained (textsOfKind ?A ''text/plain'' ?p1), False)
           else Inl NoBodyFound)"
      using extractMultipartBody_empty_text [where L = ?A and body = "Inr []"
          and boundary = "''b''" and ps = ?p1] m(1) parts(1) r1
      by blast
    then show ?thesis
      by (simp only: t1(2) retained_def) simp
  qed
  have b: "extractMultipartBody ?B (Inr []) ''b''
      = extractParts ?B [examplePart ''text/html'' ''<p>''] [] []"
  proof -
    have "extractMultipartBody ?B (Inr []) ''b''
        = extractParts ?B (filter (notOfKind ?B ''text/plain'') ?p2) [] []"
      using extractMultipartBody_empty_text [where L = ?B and body = "Inr []"
          and boundary = "''b''" and ps = ?p2] m(2) parts(2) r2
      by blast
    then show ?thesis
      by (simp only: f2)
  qed
  have c: "extractMultipartBody ?C (Inr []) ''b'' = Inl NoBodyFound"
    using extractMultipartBody_empty_text [where L = ?C and body = "Inr []"
        and boundary = "''b''" and ps = ?p3] m(3) parts(3) e3
    by blast
  from parts r1 r2 e3 a b c show ?thesis
    by blast
qed

section \<open>Properties of the quoted-printable decoder\<close>

lemma ReadString_line:
  "delim \<notin> set l \<Longrightarrow> ReadString (l @ delim # rest) delim = (l @ [delim], False, rest)"
proof -
  assume a: "delim \<notin> set l"
  then have d: "dropWhile (\<lambda>c. c \<noteq> delim) (l @ delim # rest) = delim # rest"
    by (auto simp: dropWhile_append3)
  from a have t: "takeWhile (\<lambda>c. c \<noteq> delim) (l @ delim # rest) = l"
    by (auto simp: takeWhile_tail)
  show ?thesis unfolding ReadString_def d t by simp
qed

lemma ReadString_last:
  "delim \<notin> set l \<Longrightarrow> ReadString l delim = (l, True, [])"
proof -
  assume a: "delim \<notin> set l"
  then have d: "dropWhile (\<lambda>c. c \<noteq> delim) l = []" by auto
  show ?thesis unfolding ReadString_def d by simp
qed

lemma TrimRight_snoc_cut:
  "c \<in> set cutset \<Longrightarrow> TrimRight (l @ [c]) cutset = TrimRight l cutset"
  by (simp add: TrimRight_def)

lemma TrimRight_snoc_keep:
  "c \<notin> set cutset \<Longrightarrow> TrimRight (l @ [c]) cutset = l @ [c]"
  by (simp add: TrimRight_def)

lemma softBreak_newline: "softBreak (l @ [CHR 0x0A]) = softBreak l"
  by (simp add: softBreak_def TrimRight_snoc_cut)

lemma HasSuffix_single: "HasSuffix l [c] = (l \<noteq> [] \<and> last l = c)"
  by (cases l rule: rev_cases) (auto simp: HasSuffix_def)

lemma TrimSuffix_single: "TrimSuffix (l @ [c]) [c] = l"
  by (simp add: TrimSuffix_def HasSuffix_def)

lemma softBreak_soft: "softBreak (l @ ''='') = l"
  by (simp add: softBreak_def TrimRight_snoc_keep TrimSuffix_single HasSuffix_single)

lemma decodeQuotedPrintable_line:
  "CHR 0x0A \<notin> set l \<Longrightarrow>
   decodeQuotedPrintable (l @ CHR 0x0A # rest) =
     decodeEscapes (softBreak l) @ decodeQuotedPrintable rest"
  by (subst decodeQuotedPrintable.simps) (simp add: ReadString_line softBreak_newline)

lemma decodeQuotedPrintable_last:
  "CHR 0x0A \<notin> set l \<Longrightarrow> decodeQuotedPrintable l = decodeEscapes (softBreak l)"
  by (subst decodeQuotedPrintable.simps) (simp add: ReadString_last)

lemma decodeEscapes_other:
  "c \<noteq> CHR ''='' \<Longrightarrow> decodeEscapes (c # rest) = c # decodeEscapes rest"
  by (cases "(c # rest)" rule: decodeEscapes.cases) auto

lemma Sscanf_02X_hex:
  "isHexDigit x \<Longrightarrow> isHexDigit y \<Longrightarrow> Sscanf_02X x y = char_of (16 * hexVal x + hexVal y)"
  by (simp add: Sscanf_02X_def)

lemma qpLines_line: "CHR 0x0A \<notin> set l \<Longrightarrow> qpLines (l @ CHR 0x0A # rest) = l # qpLines rest"
  by (induction l) auto

lemma qpLines_last: "CHR 0x0A \<notin> set l \<Longrightarrow> qpLines l = [l]"
  by (induction l) auto

lemma decodeQuotedPrintable_qpLines:
  "decodeQuotedPrintable s = concat (map (\<lambda>l. decodeEscapes (softBreak l)) (qpLines s))"
proof (induction s rule: length_induct)
  case (1 s)
  show ?case
  proof (cases "CHR 0x0A \<in> set s")
    case False
    then show ?thesis
      by (simp add: decodeQuotedPrintable_last qpLines_last)
  next
    case True
    then obtain l rest where s: "s = l @ CHR 0x0A # rest" and l: "CHR 0x0A \<notin> set l"
      by (auto dest: split_list_first)
    from s have "length rest < length s" by simp
    with 1 have "decodeQuotedPrintable rest =
        concat (map (\<lambda>l. decodeEscapes (softBreak l)) (qpLines rest))"
      by blast
    with s l show ?thesis
      by (simp add: decodeQuotedPrintable_line qpLines_line)
  qed
qed

lemma TrimRight_foldr:
  "rev (dropWhile P (rev l)) =
     foldr (\<lambda>c acc. if acc = [] \<and> P c then [] else c # acc) l []"
proof (induction l)
  case Nil
  then show ?case by simp
next
  case (Cons a l)
  let ?f = "foldr (\<lambda>c acc. if acc = [] \<and> P c then [] else c # acc)"
  show ?case
  proof (cases "\<forall>x\<in>set l. P x")
    case True
    then have d: "dropWhile P (rev l) = []" by simp
    with Cons have e: "?f l [] = []" by simp
    have "rev (dropWhile P (rev (a # l))) = rev (dropWhile P [a])"
      using True by (simp add: dropWhile_append)
    with e show ?thesis by simp
  next
    case False
    then have d: "dropWhile P (rev l) \<noteq> []" by (simp add: dropWhile_eq_Nil_conv)
    with Cons have n: "?f l [] \<noteq> []"
      by (metis rev_is_Nil_conv)
    have "rev (dropWhile P (rev (a # l))) = a # rev (dropWhile P (rev l))"
      using False by (simp add: dropWhile_append)
    with Cons n show ?thesis by simp
  qed
qed

lemma TrimRight_qpStripCRLF: "TrimRight l [CHR 0x0D, CHR 0x0A] = qpStripCRLF l"
proof -
  have "(\<lambda>c. c \<in> set [CHR 0x0D, CHR 0x0A]) = (\<lambda>c. c = CHR 0x0D \<or> c = CHR 0x0A)"
    by auto
  then show ?thesis
    by (simp only: TrimRight_def qpStripCRLF_def TrimRight_foldr)
qed

lemma TrimSuffix_last: "l \<noteq> [] \<Longrightarrow> last l = c \<Longrightarrow> TrimSuffix l [c] = butlast l"
  by (cases l rule: rev_cases) (auto simp: TrimSuffix_def HasSuffix_def)

lemma softBreak_spec:
  "softBreak l = qpContent l @ (if qpSoft l then [] else [CHR 0x0A])"
  by (auto simp: softBreak_def Let_def TrimRight_qpStripCRLF HasSuffix_single qpSoft_def
      qpContent_def TrimSuffix_last)

lemma qpHexValue_hex: "isHexDigit c \<Longrightarrow> qpHexValue c = Some (hexVal c)"
  by (auto simp: isHexDigit_def qpHexValue_def hexVal_def)

lemma qpHexValue_other: "\<not> isHexDigit c \<Longrightarrow> qpHexValue c = None"
  by (simp add: isHexDigit_def qpHexValue_def)

lemma qpHexValue_Some: "qpHexValue c \<noteq> None \<Longrightarrow> isHexDigit c"
  by (rule ccontr) (simp add: qpHexValue_other)

lemma decodeEscapes_wellFormed:
  "qpWellFormedLine t \<Longrightarrow> decodeEscapes (t @ u) = qpEscapes t @ decodeEscapes u"
proof (induction t rule: qpWellFormedLine.induct)
  case (1 c x y rest)
  show ?case
  proof (cases "c = CHR ''=''")
    case True
    with "1.prems" have h: "qpHexValue x \<noteq> None" "qpHexValue y \<noteq> None" "qpWellFormedLine rest"
      by simp_all
    have hx: "isHexDigit x" "isHexDigit y"
      by (simp_all add: qpHexValue_Some h)
    from "1.IH"(1) True h have "decodeEscapes (rest @ u) = qpEscapes rest @ decodeEscapes u"
      by simp
    with True h hx show ?thesis
      by (simp add: Sscanf_02X_hex qpHexValue_hex)
  next
    case False
    with "1.prems" have w: "qpWellFormedLine (x # y # rest)" by simp
    from "1.IH"(2) False w
    have "decodeEscapes ((x # y # rest) @ u) = qpEscapes (x # y # rest) @ decodeEscapes u"
      by simp
    with False show ?thesis by simp
  qed
qed (simp_all add: decodeEscapes_other)


lemma decodeEscapes_softBreak_spec:
  "qpWellFormedLine (qpContent l) \<Longrightarrow> decodeEscapes (softBreak l) = qpSpecLine l"
proof -
  assume w: "qpWellFormedLine (qpContent l)"
  have "decodeEscapes (qpContent l @ (if qpSoft l then [] else [CHR 0x0A])) =
      qpEscapes (qpContent l) @ decodeEscapes (if qpSoft l then [] else [CHR 0x0A])"
    using w by (rule decodeEscapes_wellFormed)
  then show ?thesis
    by (simp add: softBreak_spec qpSpecLine_def)
qed

lemma decodeQuotedPrintable_spec:
  "qpWellFormed s \<Longrightarrow> decodeQuotedPrintable s = qpSpecDecode s"
proof -
  assume "qpWellFormed s"
  then have "\<forall>l\<in>set (qpLines s). decodeEscapes (softBreak l) = qpSpecLine l"
    by (simp add: qpWellFormed_def list_all_iff decodeEscapes_softBreak_spec)
  then have "map (\<lambda>l. decodeEscapes (softBreak l)) (qpLines s) = map qpSpecLine (qpLines s)"
    by simp
  then show ?thesis
    by (simp only: decodeQuotedPrintable_qpLines qpSpecDecode_def)
qed

lemma softBreak_soft_cr: "softBreak (l @ [CHR ''='', CHR 0x0D]) = l"
proof -
  have t: "TrimRight (l @ [CHR ''='', CHR 0x0D]) [CHR 0x0D, CHR 0x0A] = l @ ''=''"
    by (simp add: TrimRight_def)
  show ?thesis
    by (simp add: softBreak_def t HasSuffix_single TrimSuffix_single)
qed

text \<open>
  C4, as stated, fails twice. The last line of the input gets a newline like every
  other line that is not a soft break, so \<open>Caf=C3=A9\<close> decodes to the bytes of
  \<open>Caf\<close>, \<open>C3 A9\<close> and a newline, not to those of the word alone. And an \<open>=\<close>
  followed by two bytes that are not hexadecimal digits does not pass through: it
  and the two bytes become one zero byte.
\<close>

theorem decodeQuotedPrintable_counterexample:
  "decodeQuotedPrintable ''Caf=C3=A9'' = [CHR ''C'', CHR ''a'', CHR ''f'', CHR 0xC3, CHR 0xA9, CHR 0x0A]
   \<and> decodeQuotedPrintable ''Caf=C3=A9'' \<noteq> [CHR ''C'', CHR ''a'', CHR ''f'', CHR 0xC3, CHR 0xA9]
   \<and> decodeQuotedPrintable ''a=ZZb'' = [CHR ''a'', CHR 0x00, CHR ''b'', CHR 0x0A]"
  by code_simp

text \<open>
  C4, amended: the decoder works line by line, each line on its own, the
  unterminated rest of the input (empty or not) being the last line. A well-formed
  line (each \<open>=\<close>, other than the one that ends a soft line, is followed on its line
  by two hexadecimal digits) decodes as the specification says: its trailing
  carriage returns and newlines are dropped; if what is left ends in \<open>=\<close>, that
  \<open>=\<close> is stripped and no newline is emitted; every other line, the last one
  included, is emitted followed by a newline; in the line each \<open>=XX\<close> escape decodes
  to its byte and every other byte passes through unchanged. So an input of
  well-formed lines decodes to the decoding of the specification; a soft line
  break, before a newline or before a carriage return and a newline, puts no
  newline between the lines it joins; and \<open>Caf=C3=A9\<close> decodes to the UTF-8 bytes of
  the word followed by a newline. What the decoder makes of a line with an \<open>=\<close> that
  is not followed by two hexadecimal digits is left open.
\<close>

theorem decodeQuotedPrintable_refines:
  "(qpWellFormed s \<longrightarrow> decodeQuotedPrintable s = qpSpecDecode s)
   \<and> (CHR 0x0A \<notin> set l \<longrightarrow>
        decodeQuotedPrintable (l @ CHR 0x0A # rest)
          = decodeQuotedPrintable l @ decodeQuotedPrintable rest)
   \<and> (CHR 0x0A \<notin> set l \<and> qpWellFormedLine (qpContent l) \<longrightarrow>
        decodeQuotedPrintable l = qpSpecLine l)
   \<and> (CHR 0x0A \<notin> set l \<and> qpWellFormedLine l \<longrightarrow>
        decodeQuotedPrintable (l @ ''='' @ CHR 0x0A # rest) = qpEscapes l @ decodeQuotedPrintable rest
        \<and> decodeQuotedPrintable (l @ ''='' @ CHR 0x0D # CHR 0x0A # rest)
            = qpEscapes l @ decodeQuotedPrintable rest)
   \<and> qpWellFormed ''Caf=C3=A9''
   \<and> decodeQuotedPrintable ''Caf=C3=A9'' = ''Caf'' @ [CHR 0xC3, CHR 0xA9, CHR 0x0A]"
proof -
  have a: "qpWellFormed s \<longrightarrow> decodeQuotedPrintable s = qpSpecDecode s"
    using decodeQuotedPrintable_spec [of s] by blast
  have b: "CHR 0x0A \<notin> set l \<longrightarrow>
        decodeQuotedPrintable (l @ CHR 0x0A # rest)
          = decodeQuotedPrintable l @ decodeQuotedPrintable rest"
    using decodeQuotedPrintable_line [of l rest] decodeQuotedPrintable_last [of l] by simp
  have c: "CHR 0x0A \<notin> set l \<and> qpWellFormedLine (qpContent l) \<longrightarrow>
        decodeQuotedPrintable l = qpSpecLine l"
    using decodeQuotedPrintable_last [of l] decodeEscapes_softBreak_spec [of l] by simp
  have d: "decodeQuotedPrintable (l @ ''='' @ CHR 0x0A # rest) = qpEscapes l @ decodeQuotedPrintable rest
        \<and> decodeQuotedPrintable (l @ ''='' @ CHR 0x0D # CHR 0x0A # rest)
            = qpEscapes l @ decodeQuotedPrintable rest"
    if h: "CHR 0x0A \<notin> set l" "qpWellFormedLine l"
  proof -
    have e: "decodeEscapes l = qpEscapes l"
      using decodeEscapes_wellFormed [OF h(2), of "[]"] by simp
    have n1: "CHR 0x0A \<notin> set (l @ ''='')" using h(1) by simp
    have n2: "CHR 0x0A \<notin> set (l @ ''='' @ [CHR 0x0D])" using h(1) by simp
    have "decodeQuotedPrintable ((l @ ''='') @ CHR 0x0A # rest) =
        decodeEscapes (softBreak (l @ ''='')) @ decodeQuotedPrintable rest"
      using n1 by (rule decodeQuotedPrintable_line)
    then have 1: "decodeQuotedPrintable (l @ ''='' @ CHR 0x0A # rest) =
        qpEscapes l @ decodeQuotedPrintable rest"
      by (simp add: softBreak_soft e)
    have "decodeQuotedPrintable ((l @ ''='' @ [CHR 0x0D]) @ CHR 0x0A # rest) =
        decodeEscapes (softBreak (l @ ''='' @ [CHR 0x0D])) @ decodeQuotedPrintable rest"
      using n2 by (rule decodeQuotedPrintable_line)
    then have 2: "decodeQuotedPrintable (l @ ''='' @ CHR 0x0D # CHR 0x0A # rest) =
        qpEscapes l @ decodeQuotedPrintable rest"
      by (simp add: softBreak_soft_cr e)
    from 1 2 show ?thesis by blast
  qed
  have e: "qpWellFormed ''Caf=C3=A9''"
    by code_simp
  have f: "decodeQuotedPrintable ''Caf=C3=A9'' = ''Caf'' @ [CHR 0xC3, CHR 0xA9, CHR 0x0A]"
    by code_simp
  from a b c d e f show ?thesis by blast
qed

theorem decodeQuotedPrintable_refines_witness:
  "qpWellFormed (''ab='' @ [CHR 0x0D, CHR 0x0A] @ ''cd=41'' @ [CHR 0x0D, CHR 0x0A])
   \<and> decodeQuotedPrintable (''ab='' @ [CHR 0x0D, CHR 0x0A] @ ''cd=41'' @ [CHR 0x0D, CHR 0x0A])
       = ''abcdA'' @ [CHR 0x0A, CHR 0x0A]
   \<and> CHR 0x0A \<notin> set ''a=62'' \<and> qpWellFormedLine ''a=62''
   \<and> qpWellFormedLine (qpContent ''a=62'')
   \<and> decodeQuotedPrintable (''a=62'' @ CHR 0x0A # ''c=ZZ'')
       = ''ab'' @ [CHR 0x0A] @ decodeQuotedPrintable ''c=ZZ''
   \<and> decodeQuotedPrintable ''a=62'' = ''ab'' @ [CHR 0x0A]
   \<and> decodeQuotedPrintable (''a=62'' @ ''='' @ CHR 0x0A # ''cd'') = ''abcd'' @ [CHR 0x0A]
   \<and> decodeQuotedPrintable (''a=62'' @ ''='' @ CHR 0x0D # CHR 0x0A # ''cd'') = ''abcd'' @ [CHR 0x0A]"
  using
    decodeQuotedPrintable_refines
      [of "''ab='' @ [CHR 0x0D, CHR 0x0A] @ ''cd=41'' @ [CHR 0x0D, CHR 0x0A]" "''a=62''" "''cd''"]
    decodeQuotedPrintable_refines
      [of "''ab='' @ [CHR 0x0D, CHR 0x0A] @ ''cd=41'' @ [CHR 0x0D, CHR 0x0A]" "''a=62''" "''c=ZZ''"]
  by code_simp

section \<open>Properties of the PKCE pair\<close>

lemma length_encodeURL: "length encodeURL = 64"
  by (simp add: encodeURL_def)

lemma enc64_alphabet: "enc64 v \<in> set encodeURL"
  by (simp add: enc64_def length_encodeURL)

lemma EncodeToString_alphabet: "set (RawURLEncoding_EncodeToString b) \<subseteq> set encodeURL"
  by (induction b rule: RawURLEncoding_EncodeToString.induct)
     (auto simp: Let_def enc64_alphabet)

lemma EncodeToString_length:
  "length (RawURLEncoding_EncodeToString b) = (4 * length b + 2) div 3"
  by (induction b rule: RawURLEncoding_EncodeToString.induct) (auto simp: Let_def)

lemma no_padding_char: "CHR ''='' \<notin> set encodeURL"
  by (simp add: encodeURL_def)

lemma EncodeToString_unpadded: "CHR ''='' \<notin> set (RawURLEncoding_EncodeToString b)"
  using EncodeToString_alphabet [of b] no_padding_char by blast

lemma rand_Read_length: "length (rand_Read source b) = length b"
  by (simp add: rand_Read_def)

lemma rand_Read_full: "length source = length b \<Longrightarrow> rand_Read source b = source"
  by (simp add: rand_Read_def)

lemma generatePKCE_fields:
  "codeVerifier (generatePKCE H source a) =
     RawURLEncoding_EncodeToString (rand_Read source (replicate 32 (CHR 0x00)))"
  "codeChallenge (generatePKCE H source a) =
     RawURLEncoding_EncodeToString (H (codeVerifier (generatePKCE H source a)))"
  by (simp_all add: generatePKCE_def Let_def)

text \<open>
  C7: the verifier is the unpadded URL-safe base64 encoding of the 32 bytes read
  from the random source (43 characters of the URL-safe alphabet, none of them the
  padding character); the challenge is the unpadded URL-safe base64 encoding of the
  SHA-256 sum of the verifier's bytes (43 characters again for a 32-byte sum); and
  the challenge depends on the verifier alone: two runs with the same verifier give
  the same challenge.
\<close>

theorem generatePKCE_pair:
  "codeVerifier (generatePKCE H source a) =
     RawURLEncoding_EncodeToString (rand_Read source (replicate 32 (CHR 0x00)))
   \<and> length (rand_Read source (replicate 32 (CHR 0x00))) = 32
   \<and> (length source = 32 \<longrightarrow>
        codeVerifier (generatePKCE H source a) = RawURLEncoding_EncodeToString source)
   \<and> length (codeVerifier (generatePKCE H source a)) = 43
   \<and> set (codeVerifier (generatePKCE H source a)) \<subseteq> set encodeURL
   \<and> CHR ''='' \<notin> set (codeVerifier (generatePKCE H source a))
   \<and> codeChallenge (generatePKCE H source a) =
        RawURLEncoding_EncodeToString (H (codeVerifier (generatePKCE H source a)))
   \<and> set (codeChallenge (generatePKCE H source a)) \<subseteq> set encodeURL
   \<and> CHR ''='' \<notin> set (codeChallenge (generatePKCE H source a))
   \<and> (length (H (codeVerifier (generatePKCE H source a))) = 32 \<longrightarrow>
        length (codeChallenge (generatePKCE H source a)) = 43)
   \<and> (codeVerifier (generatePKCE H source a) = codeVerifier (generatePKCE H source' a') \<longrightarrow>
        codeChallenge (generatePKCE H source a) = codeChallenge (generatePKCE H source' a'))"
proof -
  let ?g = "generatePKCE H source a"
  have v: "codeVerifier ?g =
      RawURLEncoding_EncodeToString (rand_Read source (replicate 32 (CHR 0x00)))"
    by (rule generatePKCE_fields)
  have c: "codeChallenge ?g = RawURLEncoding_EncodeToString (H (codeVerifier ?g))"
    by (rule generatePKCE_fields)
  have c': "codeChallenge (generatePKCE H source' a') =
      RawURLEncoding_EncodeToString (H (codeVerifier (generatePKCE H source' a')))"
    by (rule generatePKCE_fields)
  have l: "length (rand_Read source (replicate 32 (CHR 0x00))) = 32"
    by (simp add: rand_Read_length)
  have f: "length source = 32 \<longrightarrow> codeVerifier ?g = RawURLEncoding_EncodeToString source"
    by (simp add: v rand_Read_full)
  have lv: "length (codeVerifier ?g) = 43"
    by (simp add: v EncodeToString_length l)
  have sv: "set (codeVerifier ?g) \<subseteq> set encodeURL"
    by (simp only: v EncodeToString_alphabet)
  have pv: "CHR ''='' \<notin> set (codeVerifier ?g)"
    by (simp only: v EncodeToString_unpadded not_False_eq_True)
  have sc: "set (codeChallenge ?g) \<subseteq> set encodeURL"
    by (subst c) (rule EncodeToString_alphabet)
  have pc: "CHR ''='' \<notin> set (codeChallenge ?g)"
    by (subst c) (rule EncodeToString_unpadded)
  have lc: "length (H (codeVerifier ?g)) = 32 \<longrightarrow> length (codeChallenge ?g) = 43"
    by (subst c) (simp add: EncodeToString_length)
  have d: "codeVerifier ?g = codeVerifier (generatePKCE H source' a') \<longrightarrow>
        codeChallenge ?g = codeChallenge (generatePKCE H source' a')"
    by (subst c, subst c') simp
  from v l f lv sv pv c sc pc lc d show ?thesis by blast
qed

theorem generatePKCE_pair_witness:
  "length ''0123456789abcdef0123456789abcdef'' = 32
   \<and> codeVerifier (generatePKCE (take 32) ''0123456789abcdef0123456789abcdef'' exampleAuthenticator)
       = ''MDEyMzQ1Njc4OWFiY2RlZjAxMjM0NTY3ODlhYmNkZWY''
   \<and> length (take 32
         (codeVerifier (generatePKCE (take 32) ''0123456789abcdef0123456789abcdef'' exampleAuthenticator)))
       = 32
   \<and> length (codeChallenge
         (generatePKCE (take 32) ''0123456789abcdef0123456789abcdef'' exampleAuthenticator)) = 43
   \<and> codeVerifier (generatePKCE (take 32) ''0123456789abcdef0123456789abcdef'' exampleAuthenticator)
       = codeVerifier (generatePKCE (take 32) ''0123456789abcdef0123456789abcdef''
           (exampleAuthenticator\<lparr>clientID := ''other''\<rparr>))
   \<and> codeChallenge (generatePKCE (take 32) ''0123456789abcdef0123456789abcdef'' exampleAuthenticator)
       = codeChallenge (generatePKCE (take 32) ''0123456789abcdef0123456789abcdef''
           (exampleAuthenticator\<lparr>clientID := ''other''\<rparr>))"
proof -
  let ?src = "''0123456789abcdef0123456789abcdef''"
  let ?g = "generatePKCE (take 32) ?src exampleAuthenticator"
  let ?g' = "generatePKCE (take 32) ?src (exampleAuthenticator\<lparr>clientID := ''other''\<rparr>)"
  note T = generatePKCE_pair [where H = "take 32" and source = ?src and a = exampleAuthenticator
      and source' = ?src and a' = "exampleAuthenticator\<lparr>clientID := ''other''\<rparr>"]
  have l: "length ?src = 32" by simp
  have e: "RawURLEncoding_EncodeToString ?src = ''MDEyMzQ1Njc4OWFiY2RlZjAxMjM0NTY3ODlhYmNkZWY''"
    by (simp add: enc64_def encodeURL_def Let_def)
  from T l have v: "codeVerifier ?g = RawURLEncoding_EncodeToString ?src" by blast
  from T have lv: "length (codeVerifier ?g) = 43" by blast
  then have h: "length (take 32 (codeVerifier ?g)) = 32" by simp
  from T h have lc: "length (codeChallenge ?g) = 43" by blast
  have vv: "codeVerifier ?g = codeVerifier ?g'"
    by (simp add: generatePKCE_fields)
  from T vv have cc: "codeChallenge ?g = codeChallenge ?g'" by blast
  from l v e h lc vv cc show ?thesis by simp
qed

end
